theory Spec2Isabelle
  imports Complex_Main
begin

section \<open>Numbers and math helpers\<close>

text \<open>
  A JavaScript number is modelled as a real: arithmetic is exact, and the values NaN and
  the infinities do not occur.  \<open>Math.round\<close> rounds to the nearest integer with ties
  towards plus infinity, which is \<^const>\<open>round\<close>.
\<close>

definition radToDeg :: "real \<Rightarrow> real" where
  "radToDeg r = r * 180 / pi"

definition degToRad :: "real \<Rightarrow> real" where
  "degToRad d = d * pi / 180"

text \<open>
  \<open>function wrapDeg(d) { while (d > 180) d -= 360; while (d < -180) d += 360; return d; }\<close>
  Each while loop is a recursive function of its own; the second runs on the result of the
  first.  On reals every subtraction and addition is exact and both loops end; this is
  the arithmetic of the program wherever the numbers involved are exactly representable,
  as integers of ordinary size are.
\<close>

function wrapDown :: "real \<Rightarrow> real" where
  "wrapDown d = (if d > 180 then wrapDown (d - 360) else d)"
  by pat_completeness auto
termination
proof (relation "measure (\<lambda>d. nat \<lceil>(d - 180) / 360\<rceil>)")
  show "wf (measure (\<lambda>d. nat \<lceil>(d - 180) / 360\<rceil>))" by simp
next
  fix d :: real
  assume d: "180 < d"
  have e: "(d - 360 - 180) / 360 = (d - 180) / 360 - 1" by (simp add: field_simps)
  have "0 < (d - 180) / 360" using d by simp
  then have p: "0 < \<lceil>(d - 180) / 360\<rceil>" by linarith
  have "\<lceil>(d - 360 - 180) / 360\<rceil> = \<lceil>(d - 180) / 360\<rceil> - 1"
    unfolding e by simp
  then have "nat \<lceil>(d - 360 - 180) / 360\<rceil> < nat \<lceil>(d - 180) / 360\<rceil>"
    using p by linarith
  then show "(d - 360, d) \<in> measure (\<lambda>d. nat \<lceil>(d - 180) / 360\<rceil>)"
    unfolding in_measure .
qed

function wrapUp :: "real \<Rightarrow> real" where
  "wrapUp d = (if d < -180 then wrapUp (d + 360) else d)"
  by pat_completeness auto
termination
proof (relation "measure (\<lambda>d. nat \<lceil>(- 180 - d) / 360\<rceil>)")
  show "wf (measure (\<lambda>d. nat \<lceil>(- 180 - d) / 360\<rceil>))" by simp
next
  fix d :: real
  assume d: "d < - 180"
  have e: "(- 180 - (d + 360)) / 360 = (- 180 - d) / 360 - 1" by (simp add: field_simps)
  have "0 < (- 180 - d) / 360" using d by simp
  then have p: "0 < \<lceil>(- 180 - d) / 360\<rceil>" by linarith
  have "\<lceil>(- 180 - (d + 360)) / 360\<rceil> = \<lceil>(- 180 - d) / 360\<rceil> - 1"
    unfolding e by simp
  then have "nat \<lceil>(- 180 - (d + 360)) / 360\<rceil> < nat \<lceil>(- 180 - d) / 360\<rceil>"
    using p by linarith
  then show "(d + 360, d) \<in> measure (\<lambda>d. nat \<lceil>(- 180 - d) / 360\<rceil>)"
    unfolding in_measure .
qed

declare wrapDown.simps [simp del] wrapUp.simps [simp del]

definition wrapDeg :: "real \<Rightarrow> real" where
  "wrapDeg d = wrapUp (wrapDown d)"


text \<open>
  \<open>Math.hypot\<close> and \<open>Math.atan2\<close> are library functions of the language; they are given
  their mathematical meaning (signed zeros are not distinguished).
\<close>

definition hypot :: "real \<Rightarrow> real \<Rightarrow> real" where
  "hypot a b = sqrt (a * a + b * b)"

definition atan2 :: "real \<Rightarrow> real \<Rightarrow> real" where
  "atan2 y x =
     (if 0 < x then arctan (y / x)
      else if x < 0 then (if 0 \<le> y then arctan (y / x) + pi else arctan (y / x) - pi)
      else if 0 < y then pi / 2
      else if y < 0 then - pi / 2
      else 0)"

section \<open>Data model\<close>

text \<open>
  The objects of the program are records.  A start pose is \<open>{x, y, h}\<close>; a waypoint has the
  same three fields and, depending on how it was created, \<open>segmentType\<close>, \<open>arcSpeed\<close>,
  \<open>arcControlPoint\<close>, \<open>isAction\<close> and \<open>actionId\<close>.  A field the object does not have
  (\<open>undefined\<close>) is \<open>None\<close>; for \<open>arcControlPoint\<close> the values \<open>undefined\<close> and \<open>null\<close> are
  both \<open>None\<close>, since the program only ever tests this field for truthiness.  An absent
  \<open>isAction\<close> is \<open>False\<close>.
\<close>

record point =
  x_m :: real
  y_m :: real

record pose = point +
  h_rad :: real

datatype segment = Drive | Strafe | Arc

record waypoint = pose +
  segmentType :: "segment option"
  arcSpeed :: "real option"
  arcControlPoint :: "point option"
  isAction :: bool
  actionId :: "nat option"

record marker = point +
  marker_id :: nat
  name :: string
  args :: string

datatype mode = Robot | Field

text \<open>
  The global variables.  A history entry holds copies of \<open>waypoints\<close>, \<open>markers\<close>, \<open>start\<close>
  and \<open>selectedSegmentIdx\<close>; the state has these four and the rest.
\<close>

record snapshot =
  waypoints :: "waypoint list"
  markers :: "marker list"
  start :: pose
  selectedSegmentIdx :: "nat option"

record state = snapshot +
  history :: "snapshot list"
  nextMarkerId :: nat
  currentMode :: mode
  arcSamples :: int
  simSpeed :: real
  isSimulating :: bool

definition pt :: "'a point_scheme \<Rightarrow> point" where
  "pt p = \<lparr>x_m = x_m p, y_m = y_m p\<rparr>"

definition initial_state :: state where
  "initial_state =
     \<lparr>waypoints = [], markers = [], start = \<lparr>x_m = 0, y_m = 0, h_rad = 0\<rparr>,
      selectedSegmentIdx = None, history = [], nextMarkerId = 1, currentMode = Robot,
      arcSamples = 5, simSpeed = 1, isSimulating = False\<rparr>"

section \<open>Geometry kernel\<close>

definition computeDefaultArcControl :: "point \<Rightarrow> point \<Rightarrow> point" where
  "computeDefaultArcControl prevWp p =
     (let startX = x_m prevWp; startY = y_m prevWp;
          endX = x_m p; endY = y_m p;
          dx = endX - startX; dy = endY - startY;
          dist = hypot dx dy
      in if dist < 1 / 10 ^ 6 then \<lparr>x_m = (startX + endX) / 2, y_m = (startY + endY) / 2\<rparr>
         else
           (let segAngle = atan2 dy dx;
                perpAngle = segAngle + pi / 2;
                controlDist = dist * (3 / 10);
                midX = (startX + endX) / 2;
                midY = (startY + endY) / 2
            in \<lparr>x_m = midX + cos perpAngle * controlDist,
                y_m = midY + sin perpAngle * controlDist\<rparr>))"

definition bezierPoint :: "real \<Rightarrow> point \<Rightarrow> point \<Rightarrow> point \<Rightarrow> point" where
  "bezierPoint t p0 p1 p2 =
     (let mt = 1 - t
      in \<lparr>x_m = mt * mt * x_m p0 + 2 * mt * t * x_m p1 + t * t * x_m p2,
          y_m = mt * mt * y_m p0 + 2 * mt * t * y_m p1 + t * t * y_m p2\<rparr>)"

section \<open>State management\<close>

text \<open>
  \<open>saveState\<close> appends a deep copy of the four path variables and drops the first entry
  when the list has grown past 20.
\<close>

definition saveState :: "state \<Rightarrow> state" where
  "saveState s =
     (let h = history s @ [snapshot.truncate s]
      in s\<lparr>history := (if length h > 20 then tl h else h)\<rparr>)"

text \<open>
  \<open>draw\<close> repaints the canvas.  Its one effect on the variables is in the branch that paints
  an arc segment (taken when the mode is not \<open>field\<close> and the waypoint's \<open>segmentType\<close> is
  \<open>arc\<close>): a waypoint without a control point gets the default one, computed from its
  predecessor in the list (the start for the first).  \<open>generateCode\<close> only writes the code
  panel and is not part of the state.
\<close>

fun draw_fill :: "point \<Rightarrow> waypoint list \<Rightarrow> waypoint list" where
  "draw_fill prevWp [] = []"
| "draw_fill prevWp (p # ps) =
     (if segmentType p = Some Arc \<and> arcControlPoint p = None
      then p\<lparr>arcControlPoint := Some (computeDefaultArcControl prevWp (pt p))\<rparr>
      else p) # draw_fill (pt p) ps"

definition draw :: "state \<Rightarrow> state" where
  "draw s = (if currentMode s = Field then s
             else s\<lparr>waypoints := draw_fill (pt (start s)) (waypoints s)\<rparr>)"

definition undo :: "state \<Rightarrow> state" where
  "undo s =
     (if history s = [] then s
      else
        (let st = last (history s)
         in draw (s\<lparr>history := butlast (history s),
                    waypoints := waypoints st,
                    markers := markers st,
                    start := start st,
                    selectedSegmentIdx := selectedSegmentIdx st\<rparr>)))"

definition setMode :: "mode \<Rightarrow> state \<Rightarrow> state" where
  "setMode m s = draw (s\<lparr>currentMode := m\<rparr>)"

definition deleteSelectedPoint :: "state \<Rightarrow> state" where
  "deleteSelectedPoint s =
     (case selectedSegmentIdx s of
        None \<Rightarrow> s
      | Some i \<Rightarrow>
          if i < length (waypoints s)
          then draw ((saveState s)\<lparr>waypoints := take i (waypoints s) @ drop (Suc i) (waypoints s),
                                   selectedSegmentIdx := None\<rparr>)
          else s)"

text \<open>\<open>clearPath\<close> after the user has confirmed the dialog.\<close>

definition clearPath :: "state \<Rightarrow> state" where
  "clearPath s =
     draw ((saveState s)\<lparr>waypoints := [], markers := [],
                         start := \<lparr>x_m = 0, y_m = 0, h_rad = 0\<rparr>,
                         selectedSegmentIdx := None\<rparr>)"

section \<open>Event handlers\<close>

text \<open>
  The mouse and keyboard handlers decide by hit-testing in pixel coordinates which of
  their branches runs.  Each function below is the body of one branch; what the hit test
  found (a position in meters, an index, the texts typed into a prompt) is its argument.
  An index outside the list makes the handler's first property access throw, which leaves
  the variables as they were.
\<close>

definition addWaypoint :: "point \<Rightarrow> state \<Rightarrow> state" where
  "addWaypoint m s =
     (let s1 = saveState s;
          ws = waypoints s1 @
                 [\<lparr>x_m = x_m m, y_m = y_m m, h_rad = 0, segmentType = Some Drive,
                   arcSpeed = Some (8 / 10), arcControlPoint = None, isAction = False,
                   actionId = None\<rparr>]
      in draw (s1\<lparr>waypoints := ws, selectedSegmentIdx := Some (length ws - 1)\<rparr>))"

definition selectWaypoint :: "nat \<Rightarrow> state \<Rightarrow> state" where
  "selectWaypoint i s = (if i < length (waypoints s) then s\<lparr>selectedSegmentIdx := Some i\<rparr> else s)"

definition setStart :: "point \<Rightarrow> state \<Rightarrow> state" where
  "setStart m s =
     (if currentMode s \<noteq> Robot
      then draw ((saveState s)\<lparr>start := \<lparr>x_m = x_m m, y_m = y_m m, h_rad = 0\<rparr>\<rparr>)
      else s)"

text \<open>
  The insertion index of an action waypoint: one past the last waypoint that is not an
  action, found by a loop downwards from the end; the length of the list when there is
  none.
\<close>

fun insertAt_from :: "waypoint list \<Rightarrow> nat \<Rightarrow> nat" where
  "insertAt_from ws 0 = length ws"
| "insertAt_from ws (Suc j) = (if \<not> isAction (ws ! j) then j + 1 else insertAt_from ws j)"

definition insertAction :: "point \<Rightarrow> nat \<Rightarrow> waypoint list \<Rightarrow> waypoint list" where
  "insertAction p aid ws =
     (let insertAt = insertAt_from ws (length ws)
      in take insertAt ws @
         [\<lparr>x_m = x_m p, y_m = y_m p, h_rad = 0, segmentType = None, arcSpeed = None,
           arcControlPoint = None, isAction = True, actionId = Some aid\<rparr>] @
         drop insertAt ws)"

definition clickMarker :: "nat \<Rightarrow> state \<Rightarrow> state" where
  "clickMarker i s =
     (if i < length (markers s)
      then (let mk = markers s ! i; s1 = saveState s
            in draw (s1\<lparr>waypoints := insertAction (pt mk) (marker_id mk) (waypoints s1)\<rparr>))
      else s)"

section \<open>Strings\<close>

text \<open>
  A string is a list of characters with codes 0 to 255.  White space (\<open>trim\<close>, the class
  \<open>\s\<close>) is then tab, line feed, vertical tab, form feed, carriage return, space and the
  no-break space; a digit (\<open>\d\<close>) is one of 0 to 9; the dot matches everything but line feed
  and carriage return.
\<close>

definition is_space :: "char \<Rightarrow> bool" where
  "is_space c = (c \<in> {CHR 0x09, CHR 0x0A, CHR 0x0B, CHR 0x0C, CHR 0x0D, CHR 0x20, CHR 0xA0})"

definition is_digit :: "char \<Rightarrow> bool" where
  "is_digit c = (c \<in> set ''0123456789'')"

definition trim :: "string \<Rightarrow> string" where
  "trim s = rev (dropWhile is_space (rev (dropWhile is_space s)))"

definition startsWith :: "string \<Rightarrow> string \<Rightarrow> bool" where
  "startsWith s p = (take (length p) s = p)"

fun includes_str :: "string \<Rightarrow> string \<Rightarrow> bool" where
  "includes_str [] sub = (sub = [])"
| "includes_str (c # s) sub = (startsWith (c # s) sub \<or> includes_str s sub)"

fun split_nl :: "string \<Rightarrow> string list" where
  "split_nl [] = [[]]"
| "split_nl (c # s) =
     (if c = CHR 0x0A then [] # split_nl s
      else (case split_nl s of [] \<Rightarrow> [[c]] | l # ls \<Rightarrow> (c # l) # ls))"

fun join_nl :: "string list \<Rightarrow> string" where
  "join_nl [] = []"
| "join_nl [l] = l"
| "join_nl (l # ls) = l @ CHR 0x0A # join_nl ls"

text \<open>
  \<open>parseFloat\<close> is applied to texts of the shape \<open>-?\d+\.?\d*\<close> only (the capture groups of
  the patterns below); on these it is the value of the decimal numeral.
\<close>

definition digit_val :: "char \<Rightarrow> nat" where
  "digit_val c = of_char c - 48"

definition digits_val :: "string \<Rightarrow> nat" where
  "digits_val ds = foldl (\<lambda>n c. 10 * n + digit_val c) 0 ds"

definition parseFloat :: "string \<Rightarrow> real" where
  "parseFloat s =
     (let neg = (s \<noteq> [] \<and> hd s = CHR ''-'');
          s1 = (if neg then tl s else s);
          ip = takeWhile is_digit s1;
          r = dropWhile is_digit s1;
          fp = (case r of [] \<Rightarrow> [] | c # t \<Rightarrow> if c = CHR ''.'' then takeWhile is_digit t else []);
          v = real (digits_val ip) + real (digits_val fp) / 10 ^ length fp
      in if neg then - v else v)"

definition addAction :: "string option \<Rightarrow> string option \<Rightarrow> point \<Rightarrow> real \<Rightarrow> state \<Rightarrow> state" where
  "addAction nm ar m tol s =
     (case nm of
        None \<Rightarrow> draw s
      | Some n \<Rightarrow>
          if trim n = [] then draw s
          else
            (let s1 = saveState s;
                 found = find (\<lambda>mk. hypot (x_m mk - x_m m) (y_m mk - y_m m) < tol
                                     \<and> name mk = trim n) (markers s1)
             in case found of
                  Some f \<Rightarrow>
                    draw (s1\<lparr>waypoints := insertAction (pt f) (marker_id f) (waypoints s1)\<rparr>)
                | None \<Rightarrow>
                    (let i = nextMarkerId s1;
                         mk = \<lparr>x_m = x_m m, y_m = y_m m, marker_id = i, name = trim n,
                               args = (case ar of None \<Rightarrow> [] | Some a \<Rightarrow> trim a)\<rparr>
                     in draw (s1\<lparr>markers := markers s1 @ [mk],
                                 nextMarkerId := i + 1,
                                 waypoints := insertAction m i (waypoints s1)\<rparr>))))"

text \<open>The branches of the mouse-move handler (dragging).\<close>

definition dragWaypoint :: "nat \<Rightarrow> point \<Rightarrow> state \<Rightarrow> state" where
  "dragWaypoint i m s =
     (if i < length (waypoints s)
      then (let wp = waypoints s ! i;
                wp1 = wp\<lparr>x_m := x_m m, y_m := y_m m\<rparr>;
                wp2 = (if segmentType wp1 = Some Arc then wp1\<lparr>arcControlPoint := None\<rparr> else wp1)
            in draw (s\<lparr>waypoints := (waypoints s)[i := wp2]\<rparr>))
      else s)"

definition dragStart :: "point \<Rightarrow> state \<Rightarrow> state" where
  "dragStart m s = draw (s\<lparr>start := (start s)\<lparr>x_m := x_m m, y_m := y_m m\<rparr>\<rparr>)"

definition dragHeading :: "nat \<Rightarrow> real \<Rightarrow> state \<Rightarrow> state" where
  "dragHeading i a s =
     (if i < length (waypoints s)
      then draw (s\<lparr>waypoints := (waypoints s)[i := (waypoints s ! i)\<lparr>h_rad := a\<rparr>]\<rparr>)
      else s)"

definition dragStartHeading :: "real \<Rightarrow> state \<Rightarrow> state" where
  "dragStartHeading a s = draw (s\<lparr>start := (start s)\<lparr>h_rad := a\<rparr>\<rparr>)"

definition dragArcControl :: "nat \<Rightarrow> point \<Rightarrow> state \<Rightarrow> state" where
  "dragArcControl i m s =
     (if i < length (waypoints s)
      then (let wp = waypoints s ! i;
                wp1 = wp\<lparr>arcControlPoint := Some m\<rparr>;
                wp2 = wp1\<lparr>h_rad := atan2 (y_m wp1 - y_m m) (x_m wp1 - x_m m)\<rparr>
            in draw (s\<lparr>waypoints := (waypoints s)[i := wp2]\<rparr>))
      else s)"

text \<open>The change handlers of the segment type, arc speed, sample count and speed inputs.\<close>

definition retype :: "segment \<Rightarrow> state \<Rightarrow> state" where
  "retype v s =
     (case selectedSegmentIdx s of
        None \<Rightarrow> s
      | Some i \<Rightarrow>
          if i < length (waypoints s)
          then (let s1 = saveState s;
                    s2 = (if currentMode s1 = Field \<and> v = Arc then setMode Robot s1 else s1);
                    wp = waypoints s2 ! i
                in draw (s2\<lparr>waypoints :=
                              (waypoints s2)[i := wp\<lparr>segmentType := Some v,
                                                     arcControlPoint := None\<rparr>]\<rparr>))
          else s)"

definition setArcSpeed :: "real \<Rightarrow> state \<Rightarrow> state" where
  "setArcSpeed v s =
     (case selectedSegmentIdx s of
        None \<Rightarrow> s
      | Some i \<Rightarrow>
          if i < length (waypoints s)
          then (let s1 = saveState s
                in s1\<lparr>waypoints := (waypoints s1)[i := (waypoints s1 ! i)\<lparr>arcSpeed := Some v\<rparr>]\<rparr>)
          else s)"

definition setArcSamples :: "int \<Rightarrow> state \<Rightarrow> state" where
  "setArcSamples n s = s\<lparr>arcSamples := n\<rparr>"

definition setSimSpeed :: "real \<Rightarrow> state \<Rightarrow> state" where
  "setSimSpeed v s = s\<lparr>simSpeed := v\<rparr>"

section \<open>Regular expressions\<close>

text \<open>
  The decoder's patterns use literals, the classes \<open>\d\<close>, \<open>\s\<close> and \<open>.\<close>, the greedy
  quantifiers \<open>?\<close>, \<open>*\<close> and \<open>+\<close>, the lazy \<open>*?\<close>, alternation and capture groups; the
  quantifiers \<open>*\<close>, \<open>+\<close> and \<open>*?\<close> are applied to single classes only.  Matching is
  backtracking: \<open>rx_match r s cp\<close> lists, in the order in which a backtracking matcher tries
  them, every way in which \<open>r\<close> matches a prefix of \<open>s\<close>, as the pair of the text that
  remains and the captures.  The head of the list is the match.
\<close>

datatype cls = Digit | Space | AnyChar | Lit char

fun in_cls :: "cls \<Rightarrow> char \<Rightarrow> bool" where
  "in_cls Digit c = is_digit c"
| "in_cls Space c = is_space c"
| "in_cls AnyChar c = (c \<noteq> CHR 0x0A \<and> c \<noteq> CHR 0x0D)"
| "in_cls (Lit a) c = (c = a)"

datatype rx =
    One cls
  | Str string
  | Seq rx rx
  | Alt rx rx
  | Opt rx
  | Star cls
  | Plus cls
  | LazyStar cls
  | Grp nat rx

type_synonym caps = "nat \<rightharpoonup> string"

fun greedy :: "cls \<Rightarrow> string \<Rightarrow> string list" where
  "greedy c [] = [[]]"
| "greedy c (a # s) = (if in_cls c a then greedy c s @ [a # s] else [a # s])"

fun lazy :: "cls \<Rightarrow> string \<Rightarrow> string list" where
  "lazy c [] = [[]]"
| "lazy c (a # s) = (a # s) # (if in_cls c a then lazy c s else [])"

fun rx_match :: "rx \<Rightarrow> string \<Rightarrow> caps \<Rightarrow> (string \<times> caps) list" where
  "rx_match (One c) s cp =
     (case s of [] \<Rightarrow> [] | a # t \<Rightarrow> if in_cls c a then [(t, cp)] else [])"
| "rx_match (Str l) s cp = (if startsWith s l then [(drop (length l) s, cp)] else [])"
| "rx_match (Seq a b) s cp = concat (map (\<lambda>m. rx_match b (fst m) (snd m)) (rx_match a s cp))"
| "rx_match (Alt a b) s cp = rx_match a s cp @ rx_match b s cp"
| "rx_match (Opt a) s cp = rx_match a s cp @ [(s, cp)]"
| "rx_match (Star c) s cp = map (\<lambda>t. (t, cp)) (greedy c s)"
| "rx_match (Plus c) s cp =
     (case s of [] \<Rightarrow> [] | a # t \<Rightarrow> if in_cls c a then map (\<lambda>u. (u, cp)) (greedy c t) else [])"
| "rx_match (LazyStar c) s cp = map (\<lambda>t. (t, cp)) (lazy c s)"
| "rx_match (Grp n a) s cp =
     map (\<lambda>m. (fst m, (snd m)(n \<mapsto> take (length s - length (fst m)) s))) (rx_match a s cp)"

fun seq :: "rx list \<Rightarrow> rx" where
  "seq [] = Str []"
| "seq [r] = r"
| "seq (r # rs) = Seq r (seq rs)"

text \<open>
  \<open>rx_exec r s\<close> is one call of \<open>exec\<close> (or of \<open>match\<close> without the \<open>g\<close> flag): the match
  at the leftmost position that has one, as the matched text, the text after it and the
  captures.
\<close>

fun rx_exec :: "rx \<Rightarrow> string \<Rightarrow> (string \<times> string \<times> caps) option" where
  "rx_exec r [] =
     (case rx_match r [] Map.empty of [] \<Rightarrow> None | m # _ \<Rightarrow> Some ([], fst m, snd m))"
| "rx_exec r (a # s) =
     (case rx_match r (a # s) Map.empty of
        [] \<Rightarrow> rx_exec r s
      | m # _ \<Rightarrow> Some (take (length (a # s) - length (fst m)) (a # s), fst m, snd m))"

text \<open>
  All matches from left to right, each search starting where the previous match ended
  (\<open>exec\<close> in a \<open>while\<close> loop with the \<open>g\<close> flag, and \<open>match\<close> with the \<open>g\<close> flag).  None of
  the patterns below matches the empty text, so every match ends strictly later than the
  search began; the last branch is there for the definition to be total.
\<close>

function rx_exec_all :: "rx \<Rightarrow> string \<Rightarrow> (string \<times> caps) list" where
  "rx_exec_all r s =
     (case rx_exec r s of
        None \<Rightarrow> []
      | Some m \<Rightarrow>
          if length (fst (snd m)) < length s
          then (fst m, snd (snd m)) # rx_exec_all r (fst (snd m))
          else [(fst m, snd (snd m))])"
  by pat_completeness auto
termination
  by (relation "measure (\<lambda>(r, s). length s)") auto

definition group :: "caps \<Rightarrow> nat \<Rightarrow> string" where
  "group cp n = (case cp n of None \<Rightarrow> [] | Some t \<Rightarrow> t)"

definition number :: rx where
  "number = seq [Opt (One (Lit CHR ''-'')), Plus Digit, Opt (One (Lit CHR ''.'')), Star Digit]"

section \<open>Code decoder\<close>

text \<open>
  \<open>/new\s+Pose2d\((-?\d+\.?\d*),\s*(-?\d+\.?\d*),.*?(?:Rotation2d\.fromDegrees\((-?\d+\.?\d*)\)|new\s+Rotation2d\((-?\d+\.?\d*)\))\)/g\<close>
\<close>

definition poseRegex :: rx where
  "poseRegex =
     seq [Str ''new'', Plus Space, Str ''Pose2d('', Grp 1 number, Str '','', Star Space,
          Grp 2 number, Str '','', LazyStar AnyChar,
          Alt (seq [Str ''Rotation2d.fromDegrees('', Grp 3 number, Str '')''])
              (seq [Str ''new'', Plus Space, Str ''Rotation2d('', Grp 4 number, Str '')'']),
          Str '')'']"

text \<open>
  The angle is \<open>parseFloat(match[3] || match[4] || 0)\<close>: a group that took part in the match
  is a non-empty text and so truthy.
\<close>

definition pose_angle :: "caps \<Rightarrow> real" where
  "pose_angle cp =
     (case cp 3 of
        Some a \<Rightarrow> parseFloat a
      | None \<Rightarrow> (case cp 4 of Some b \<Rightarrow> parseFloat b | None \<Rightarrow> 0))"

definition decoded_waypoint :: "real \<Rightarrow> real \<Rightarrow> real \<Rightarrow> segment \<Rightarrow> real \<Rightarrow> waypoint" where
  "decoded_waypoint x y h t sp =
     \<lparr>x_m = x, y_m = y, h_rad = h, segmentType = Some t, arcSpeed = Some sp,
      arcControlPoint = None, isAction = False, actionId = None\<rparr>"

fun field_loop :: "(string \<times> caps) list \<Rightarrow> nat \<Rightarrow> pose \<times> waypoint list \<Rightarrow> pose \<times> waypoint list" where
  "field_loop [] idx sw = sw"
| "field_loop (m # ms) idx sw =
     (let x = parseFloat (group (snd m) 1) / 100;
          y = parseFloat (group (snd m) 2) / 100;
          angle = pose_angle (snd m)
      in if idx = 0
         then field_loop ms (idx + 1) (\<lparr>x_m = x, y_m = y, h_rad = degToRad (- angle)\<rparr>, snd sw)
         else field_loop ms (idx + 1)
                (fst sw, snd sw @ [decoded_waypoint x y (degToRad (- angle)) Drive (8 / 10)]))"

definition parseFieldOrientedCode :: "string \<Rightarrow> pose \<times> waypoint list \<Rightarrow> pose \<times> waypoint list" where
  "parseFieldOrientedCode code sw = field_loop (rx_exec_all poseRegex code) 0 sw"

definition turnRegex :: rx where
  "turnRegex = seq [Str ''turnPID'', Star Space, Str ''('', Star Space, Grp 1 number,
                    Star Space, Str '')'']"

definition twoArgs :: "string \<Rightarrow> rx" where
  "twoArgs f = seq [Str f, Star Space, Str ''('', Star Space, Grp 1 number, Star Space,
                    Str '','', Star Space, Grp 2 number, Star Space]"

definition driveRegex :: rx where
  "driveRegex = Seq (twoArgs ''drivePID'') (Str '')'')"

definition strafeRegex :: rx where
  "strafeRegex = Seq (twoArgs ''strafePID'') (Str '')'')"

definition arcStartRegex :: rx where
  "arcStartRegex = Seq (twoArgs ''arc'') (Str '','')"

definition atRegex :: rx where
  "atRegex = Seq (twoArgs ''.at'') (Str '')'')"

text \<open>
  The heading samples of an arc command: when the collected lines hold at least two
  \<open>.at(t, h)\<close> calls, the headings of the first and of the last one; \<open>0\<close> and \<open>0\<close> otherwise.
\<close>

definition arc_headings :: "string \<Rightarrow> real \<times> real" where
  "arc_headings arcCode =
     (let atMatches = map fst (rx_exec_all atRegex arcCode)
      in if length atMatches \<ge> 2
         then (case (rx_exec atRegex (hd atMatches), rx_exec atRegex (last atMatches)) of
                 (Some firstAt, Some lastAt) \<Rightarrow>
                   (parseFloat (group (snd (snd firstAt)) 2),
                    parseFloat (group (snd (snd lastAt)) 2))
               | _ \<Rightarrow> (0, 0))
         else (0, 0))"

text \<open>
  The loop over the non-blank lines.  The arguments are the lines from the current one on,
  the running position and the waypoints decoded so far.  An arc command takes the lines
  up to and including the first later line that contains \<open>);\<close>, and the loop goes on after
  it.  The running heading \<open>curHeadingDeg\<close> is assigned but never read, and is left out.
\<close>

function robot_loop :: "string list \<Rightarrow> real \<Rightarrow> real \<Rightarrow> waypoint list \<Rightarrow> waypoint list" where
  "robot_loop [] cx cy ws = ws"
| "robot_loop (l # ls) cx cy ws =
     (let line = trim l
      in if startsWith line ''//'' \<or> line = [] then robot_loop ls cx cy ws
         else if rx_exec turnRegex line \<noteq> None then robot_loop ls cx cy ws
         else
           (case rx_exec driveRegex line of
              Some dm \<Rightarrow>
                (let distance = parseFloat (group (snd (snd dm)) 1);
                     headingDeg = parseFloat (group (snd (snd dm)) 2);
                     headingRad = degToRad headingDeg;
                     nx = cx + distance * cos headingRad;
                     ny = cy + distance * sin headingRad
                 in robot_loop ls nx ny
                      (ws @ [decoded_waypoint nx ny (degToRad (- headingDeg)) Drive (8 / 10)]))
            | None \<Rightarrow>
                (case rx_exec strafeRegex line of
                   Some sm \<Rightarrow>
                     (let distance = parseFloat (group (snd (snd sm)) 1);
                          headingDeg = parseFloat (group (snd (snd sm)) 2);
                          headingRad = degToRad headingDeg;
                          nx = cx + distance * cos headingRad;
                          ny = cy + distance * sin headingRad
                      in robot_loop ls nx ny
                           (ws @ [decoded_waypoint nx ny (degToRad (- headingDeg)) Strafe (8 / 10)]))
                 | None \<Rightarrow>
                     (case rx_exec arcStartRegex line of
                        Some am \<Rightarrow>
                          (let arcDistance = parseFloat (group (snd (snd am)) 1);
                               arcSpeed = parseFloat (group (snd (snd am)) 2);
                               body = takeWhile (\<lambda>k. \<not> includes_str k '');'') ls;
                               after = dropWhile (\<lambda>k. \<not> includes_str k '');'') ls;
                               arcCode = join_nl (line # body @ take 1 after);
                               hs = arc_headings arcCode;
                               headingRad = degToRad (fst hs);
                               nx = cx + arcDistance * cos headingRad;
                               ny = cy + arcDistance * sin headingRad
                           in robot_loop (drop 1 after) nx ny
                                (ws @ [decoded_waypoint nx ny (degToRad (- snd hs)) Arc arcSpeed]))
                      | None \<Rightarrow> robot_loop ls cx cy ws))))"
  by pat_completeness auto
termination
proof (relation "measure (\<lambda>(ls, cx, cy, ws). length ls)")
  fix l :: string and ls :: "string list"
  have "length (drop 1 (dropWhile (\<lambda>k. \<not> includes_str k '');'') ls)) \<le> length ls"
    using length_dropWhile_le [of "\<lambda>k. \<not> includes_str k '');''" ls] by simp
  then show "\<And>cx cy ws x xa xb xc xd xe xf xg xh xi xj.
       xd = dropWhile (\<lambda>k. \<not> includes_str k '');'') ls \<Longrightarrow>
       ((drop 1 xd, xi, xj, ws @ [decoded_waypoint xi xj (degToRad (- snd xg)) Arc xb]),
        l # ls, cx, cy, ws) \<in> measure (\<lambda>(ls, cx, cy, ws). length ls)"
    by simp
qed auto

definition parseRobotOrientedCode :: "string \<Rightarrow> pose \<times> waypoint list \<Rightarrow> pose \<times> waypoint list" where
  "parseRobotOrientedCode code sw =
     (let lines = filter (\<lambda>line. length (trim line) > 0) (split_nl code)
      in (fst sw, robot_loop lines (x_m (fst sw)) (y_m (fst sw)) (snd sw)))"

text \<open>
  \<open>decodeAndVisualize\<close>, with the text of the input field as argument.  The result says
  which message, if any, the user gets.  The parsers raise no exception, so the \<open>catch\<close>
  branch is not reached.
\<close>

datatype outcome = Ignored | Decoded | UnrecognizedFormat | NoWaypointsFound

definition is_origin :: "pose \<Rightarrow> bool" where
  "is_origin p = (x_m p = 0 \<and> y_m p = 0 \<and> h_rad p = 0)"

definition isFieldOriented :: "string \<Rightarrow> bool" where
  "isFieldOriented code = (includes_str code ''Pose2d'' \<or> includes_str code ''ArrayList'')"

definition isRobotOriented :: "string \<Rightarrow> bool" where
  "isRobotOriented code =
     (includes_str code ''drivePID'' \<or> includes_str code ''strafePID''
      \<or> includes_str code ''turnPID'' \<or> includes_str code ''arc('')"

definition decodeAndVisualize :: "string \<Rightarrow> state \<Rightarrow> outcome \<times> state" where
  "decodeAndVisualize code s =
     (if trim code = [] then (Ignored, s)
      else
        (let prevStart = start s;
             s1 = (saveState s)\<lparr>waypoints := [], markers := []\<rparr>
         in if \<not> isFieldOriented code \<and> \<not> isRobotOriented code then (UnrecognizedFormat, s1)
            else
              (let sw = (if isFieldOriented code
                         then parseFieldOrientedCode code (start s1, waypoints s1)
                         else parseRobotOrientedCode code (start s1, waypoints s1));
                   s2 = s1\<lparr>start := fst sw, waypoints := snd sw\<rparr>;
                   s3 = (if is_origin (start s2) \<and> \<not> is_origin prevStart
                         then s2\<lparr>start := prevStart\<rparr> else s2)
               in if waypoints s3 \<noteq> [] \<or> \<not> is_origin (start s3)
                  then (Decoded, draw (s3\<lparr>selectedSegmentIdx := Some 0\<rparr>))
                  else (NoWaypointsFound, s3))))"

section \<open>Simulator\<close>

text \<open>
  The robot-mode phases \<open>'turn'\<close>, \<open>'drive'\<close>, \<open>'strafe'\<close>, \<open>'arc'\<close> and \<open>'wpTurn'\<close>, and the
  local variables of one call of \<open>simulate\<close>, which its \<open>step\<close> and \<open>stepField\<close> closures
  share.  \<open>points\<close> is \<open>[start].concat(waypoints)\<close>: the list holds the waypoint objects
  themselves, so a control point written through \<open>waypoints[i]\<close> is the one seen through
  \<open>points[i + 1]\<close>.  A run is modelled without other handlers running between its steps,
  where \<open>points\<close> is the start followed by the current waypoints.
\<close>

datatype phase = PTurn | PDrive | PStrafe | PArc | PWpTurn

record run =
  seg :: nat
  phase :: phase
  pos :: point
  heading :: real
  driveProgress :: real
  distanceTraveled :: real
  totalDistance :: real
  pathPoints :: "point list"
  simIndex :: nat

record seg_info =
  seg_len :: real
  seg_ang :: real
  seg_a :: point
  seg_b :: point
  seg_type :: segment

definition of_pose :: "pose \<Rightarrow> waypoint" where
  "of_pose p =
     \<lparr>x_m = x_m p, y_m = y_m p, h_rad = h_rad p, segmentType = None, arcSpeed = None,
      arcControlPoint = None, isAction = False, actionId = None\<rparr>"

definition points :: "state \<Rightarrow> waypoint list" where
  "points s = of_pose (start s) # waypoints s"

definition segInfo :: "waypoint list \<Rightarrow> nat \<Rightarrow> seg_info" where
  "segInfo pts i =
     (let a = pts ! i; b = pts ! (i + 1);
          dx = x_m b - x_m a; dy = y_m b - y_m a
      in \<lparr>seg_len = hypot dx dy, seg_ang = radToDeg (atan2 dy dx), seg_a = pt a, seg_b = pt b,
          seg_type = (case segmentType b of None \<Rightarrow> Drive | Some t \<Rightarrow> t)\<rparr>)"

text \<open>
  \<open>getArcControlPoint\<close> returns the control point of waypoint \<open>segIdx\<close> and, when that is an
  arc waypoint without one, first stores the default control point in the waypoint.
\<close>

definition getArcControlPoint :: "nat \<Rightarrow> state \<Rightarrow> point option \<times> state" where
  "getArcControlPoint segIdx s =
     (if segIdx < 1 \<or> segIdx \<ge> length (waypoints s) then (None, s)
      else
        (let wp = waypoints s ! segIdx
         in if segmentType wp = Some Arc
            then (case arcControlPoint wp of
                    Some c \<Rightarrow> (Some c, s)
                  | None \<Rightarrow>
                      (let prevWp = (if segIdx = 0 then pt (start s)
                                     else pt (waypoints s ! (segIdx - 1)));
                           c = computeDefaultArcControl prevWp (pt wp)
                       in (Some c,
                           s\<lparr>waypoints := (waypoints s)[segIdx := wp\<lparr>arcControlPoint := Some c\<rparr>]\<rparr>)))
            else (None, s)))"

text \<open>
  \<open>computeFieldPath\<close>: two rounds of corner cutting over the start and the waypoints that
  are not actions, then removal of points closer than \<open>1e-6\<close> to their predecessor in the
  list.
\<close>

fun cut_corners :: "point list \<Rightarrow> point list" where
  "cut_corners (p0 # p1 # ps) =
     \<lparr>x_m = 3 / 4 * x_m p0 + 1 / 4 * x_m p1, y_m = 3 / 4 * y_m p0 + 1 / 4 * y_m p1\<rparr> #
     \<lparr>x_m = 1 / 4 * x_m p0 + 3 / 4 * x_m p1, y_m = 1 / 4 * y_m p0 + 3 / 4 * y_m p1\<rparr> #
     cut_corners (p1 # ps)"
| "cut_corners ps = []"

definition chaikin :: "point list \<Rightarrow> point list" where
  "chaikin pts = hd pts # cut_corners pts @ [last pts]"

fun far_from_prev :: "point \<Rightarrow> point list \<Rightarrow> point list" where
  "far_from_prev q [] = []"
| "far_from_prev q (p # ps) =
     (if hypot (x_m p - x_m q) (y_m p - y_m q) > 1 / 10 ^ 6 then [p] else []) @ far_from_prev p ps"

definition dedupe :: "point list \<Rightarrow> point list" where
  "dedupe ps = (case ps of [] \<Rightarrow> [] | p # qs \<Rightarrow> p # far_from_prev p qs)"

definition computeFieldPath :: "state \<Rightarrow> point list" where
  "computeFieldPath s =
     (let pts = pt (start s) # map pt (filter (\<lambda>wp. \<not> isAction wp) (waypoints s))
      in if length pts < 2 then [] else dedupe (chaikin (chaikin pts)))"

text \<open>In field mode \<open>simulate\<close> inserts points into every piece longer than \<open>0.5\<close>.\<close>

fun refine :: "point list \<Rightarrow> point list" where
  "refine [] = []"
| "refine [a] = [a]"
| "refine (a # b # ps) =
     (let d = hypot (x_m b - x_m a) (y_m b - y_m a)
      in a #
         (if d > 1 / 2
          then (let steps = nat \<lceil>d / (2 / 10)\<rceil>
                in map (\<lambda>k. \<lparr>x_m = x_m a + (x_m b - x_m a) * (real k / real steps),
                              y_m = y_m a + (y_m b - y_m a) * (real k / real steps)\<rparr>)
                     [1..<steps])
          else [])) @ refine (b # ps)"

text \<open>
  \<open>simulate\<close> up to the first scheduled step.  It does nothing when a run is active or
  there is no waypoint.  In robot mode the loop that collects the points of the planned
  path calls \<open>getArcControlPoint\<close> for every arc segment; the collected points are only
  painted and are left out.
\<close>

definition precalc_arc :: "nat \<Rightarrow> state \<Rightarrow> state" where
  "precalc_arc i s =
     (if seg_type (segInfo (points s) i) = Arc \<and> currentMode s = Robot
      then snd (getArcControlPoint i s) else s)"

definition simulate :: "state \<Rightarrow> (state \<times> run) option" where
  "simulate s =
     (if isSimulating s then None
      else if length (points s) < 2 then None
      else
        (let s1 = s\<lparr>isSimulating := True\<rparr>;
             pts = points s1;
             r = \<lparr>seg = 0, phase = PTurn, pos = pt (pts ! 0),
                  heading = radToDeg (- h_rad (pts ! 0)),
                  driveProgress = 0, distanceTraveled = 0,
                  totalDistance = sum_list (map (\<lambda>i. seg_len (segInfo pts i)) [0..<length pts - 1]),
                  pathPoints = [], simIndex = 0\<rparr>
         in if currentMode s1 = Field
            then Some (s1, r\<lparr>pathPoints := refine (dedupe (computeFieldPath s1))\<rparr>)
            else Some (fold precalc_arc [0..<length pts - 1] s1, r)))"

text \<open>
  \<open>Math.min(1, driveProgress / info.len || 1)\<close>.  A quotient of \<open>0\<close> or NaN (\<open>0 / 0\<close>) is
  replaced by \<open>1\<close>; a positive progress over a length of \<open>0\<close> gives \<open>Infinity\<close> and so \<open>1\<close>.  A
  negative progress over a length of \<open>0\<close> gives \<open>-Infinity\<close>, after which the position is no
  longer a number: the result \<open>None\<close>.
\<close>

definition frac_of :: "real \<Rightarrow> real \<Rightarrow> real option" where
  "frac_of dp len =
     (if len = 0 then (if dp < 0 then None else Some 1)
      else (let q = dp / len in Some (min 1 (if q = 0 then 1 else q))))"

text \<open>The value of \<open>frac\<close> that a step of a motion phase computes.\<close>

definition motion_frac :: "real \<Rightarrow> state \<Rightarrow> run \<Rightarrow> real option" where
  "motion_frac dt s r =
     frac_of (driveProgress r + 8 / 10 * (dt / 1000) * simSpeed s)
       (seg_len (segInfo (points s) (seg r)))"

definition turn_towards :: "real \<Rightarrow> real \<Rightarrow> real \<Rightarrow> real" where
  "turn_towards h0 diff maxStep = h0 + sgn diff * min maxStep \<bar>diff\<bar>"

text \<open>
  The end of a motion phase, when \<open>frac >= 1\<close>: the next phase is \<open>'wpTurn'\<close> when the heading
  of the waypoint reached, in degrees, is larger than \<open>0.0001\<close> in absolute value; otherwise
  the segment index advances and the next phase is \<open>'turn'\<close>.
\<close>

definition arrive :: "waypoint list \<Rightarrow> run \<Rightarrow> run" where
  "arrive pts r =
     (let wpHeading = radToDeg (- h_rad (pts ! (seg r + 1)))
      in if \<bar>wpHeading\<bar> > 1 / 10000 then r\<lparr>phase := PWpTurn\<rparr>
         else r\<lparr>seg := seg r + 1, phase := PTurn\<rparr>)"

definition finish_step :: "state \<times> run \<Rightarrow> state \<times> run" where
  "finish_step sr =
     (let s = draw (fst sr); r = snd sr
      in if seg r \<ge> length (points s) - 1 then (s\<lparr>isSimulating := False\<rparr>, r) else (s, r))"

definition step :: "real \<Rightarrow> state \<times> run \<Rightarrow> (state \<times> run) option" where
  "step dt sr =
     (let s = fst sr; r = snd sr; pts = points s
      in if \<not> isSimulating s then Some (s, r)
         else if \<not> seg r < length pts - 1 then Some (draw (s\<lparr>isSimulating := False\<rparr>), r)
         else
           (let info = segInfo pts (seg r);
                travel = 8 / 10 * (dt / 1000) * simSpeed s;
                maxStep = 120 * (dt / 1000) * simSpeed s
            in case phase r of
                 PTurn \<Rightarrow>
                   (let target = wrapDeg (seg_ang info);
                        diff = wrapDeg (target - heading r)
                    in if \<bar>diff\<bar> \<le> 1 / 2
                       then Some (finish_step (s,
                              (if seg_type info = Strafe
                               then r\<lparr>heading := wrapDeg (real_of_int (round (target / 90)) * 90),
                                      phase := PStrafe\<rparr>
                               else if seg_type info = Arc
                               then r\<lparr>heading := target, phase := PArc\<rparr>
                               else r\<lparr>heading := target, phase := PDrive\<rparr>)\<lparr>driveProgress := 0\<rparr>))
                       else Some (finish_step (s, r\<lparr>heading := turn_towards (heading r) diff maxStep\<rparr>)))
               | PDrive \<Rightarrow>
                   (let dp = driveProgress r + travel
                    in case frac_of dp (seg_len info) of
                         None \<Rightarrow> None
                       | Some fr \<Rightarrow>
                           (let r1 = r\<lparr>driveProgress := dp,
                                      distanceTraveled := distanceTraveled r + travel,
                                      pos := \<lparr>x_m = x_m (seg_a info) + (x_m (seg_b info) - x_m (seg_a info)) * fr,
                                              y_m = y_m (seg_a info) + (y_m (seg_b info) - y_m (seg_a info)) * fr\<rparr>,
                                      heading := seg_ang info\<rparr>
                            in Some (finish_step (s, if fr \<ge> 1 then arrive pts r1 else r1))))
               | PStrafe \<Rightarrow>
                   (let dp = driveProgress r + travel
                    in case frac_of dp (seg_len info) of
                         None \<Rightarrow> None
                       | Some fr \<Rightarrow>
                           (let r1 = r\<lparr>driveProgress := dp,
                                      distanceTraveled := distanceTraveled r + travel,
                                      pos := \<lparr>x_m = x_m (seg_a info) + (x_m (seg_b info) - x_m (seg_a info)) * fr,
                                              y_m = y_m (seg_a info) + (y_m (seg_b info) - y_m (seg_a info)) * fr\<rparr>\<rparr>
                            in Some (finish_step (s, if fr \<ge> 1 then arrive pts r1 else r1))))
               | PArc \<Rightarrow>
                   (let curWp = waypoints s ! seg r;
                        dp = driveProgress r + travel
                    in case frac_of dp (seg_len info) of
                         None \<Rightarrow> None
                       | Some fr \<Rightarrow>
                           (let g = getArcControlPoint (seg r) s;
                                s1 = snd g;
                                controlPt = (case fst g of
                                               Some c \<Rightarrow> c
                                             | None \<Rightarrow> computeDefaultArcControl (seg_a info) (seg_b info));
                                bezPt = bezierPoint fr (seg_a info) controlPt (seg_b info);
                                startH = (if seg r = 0 then radToDeg (- h_rad (start s))
                                          else radToDeg (- h_rad (waypoints s ! (seg r - 1))));
                                endH = radToDeg (- h_rad curWp);
                                r1 = r\<lparr>driveProgress := dp,
                                       distanceTraveled := distanceTraveled r + travel,
                                       pos := bezPt,
                                       heading := wrapDeg (startH + (endH - startH) * fr)\<rparr>
                            in Some (finish_step (s1, if fr \<ge> 1 then arrive pts r1 else r1))))
               | PWpTurn \<Rightarrow>
                   (let target = wrapDeg (radToDeg (- h_rad (pts ! (seg r + 1))));
                        diff = wrapDeg (target - heading r)
                    in if \<bar>diff\<bar> \<le> 1 / 2
                       then Some (finish_step (s, r\<lparr>heading := target, seg := seg r + 1, phase := PTurn\<rparr>))
                       else Some (finish_step (s, r\<lparr>heading := turn_towards (heading r) diff maxStep\<rparr>)))))"

text \<open>
  \<open>stepField\<close> walks along \<open>pathPoints\<close>.  Dividing by a distance of \<open>0\<close> (possible only
  with a negative travel) gives NaN: the result \<open>None\<close>.
\<close>

definition stepField :: "real \<Rightarrow> state \<times> run \<Rightarrow> (state \<times> run) option" where
  "stepField dt sr =
     (let s = fst sr; r = snd sr
      in if \<not> isSimulating s then Some (s, r)
         else if simIndex r + 1 \<ge> length (pathPoints r) then Some (draw (s\<lparr>isSimulating := False\<rparr>), r)
         else
           (let target = pathPoints r ! (simIndex r + 1);
                dx = x_m target - x_m (pos r);
                dy = y_m target - y_m (pos r);
                dist = hypot dx dy;
                travel = 8 / 10 * (dt / 1000) * simSpeed s
            in if dist \<le> travel
               then Some (draw s, r\<lparr>pos := target, simIndex := simIndex r + 1,
                                    heading := radToDeg (atan2 dy dx)\<rparr>)
               else if dist = 0 then None
               else Some (draw s,
                          r\<lparr>pos := \<lparr>x_m = x_m (pos r) + dx / dist * travel,
                                    y_m = y_m (pos r) + dy / dist * travel\<rparr>,
                            heading := radToDeg (atan2 dy dx)\<rparr>)))"

text \<open>
  A run: \<open>simulate\<close> followed by \<open>n\<close> of the steps it schedules, each with \<open>dt = 16\<close>.  The
  mode is read when \<open>simulate\<close> is called and decides which step function is scheduled.
\<close>

fun steps :: "nat \<Rightarrow> (state \<times> run \<Rightarrow> (state \<times> run) option) \<Rightarrow> state \<times> run \<Rightarrow> (state \<times> run) option" where
  "steps 0 f sr = Some sr"
| "steps (Suc n) f sr = (case f sr of None \<Rightarrow> None | Some sr' \<Rightarrow> steps n f sr')"

definition simulation :: "nat \<Rightarrow> state \<Rightarrow> (state \<times> run) option" where
  "simulation n s =
     (case simulate s of
        None \<Rightarrow> None
      | Some sr \<Rightarrow> steps n (if currentMode s = Field then stepField 16 else step 16) sr)"

section \<open>Code generator, robot-oriented\<close>

text \<open>
  The generated program is kept as the list of its lines.  A line that the generator
  builds from numbers is a constructor that holds these numbers: \<open>TurnPID n c\<close> stands
  for \<open>turnPID(n);\<close> followed by the text \<open>c\<close>, where \<open>n\<close> is the value of \<open>Math.round\<close>;
  \<open>DrivePID d n\<close> for \<open>drivePID(d, n);\<close> and \<open>StrafePID d n\<close> for \<open>strafePID(d, n);\<close>,
  where \<open>d\<close> is printed with two decimals; \<open>ArcCmd len speed samples\<close> for the lines
  \<open>arc(len, speed, t -> t\<close>, one \<open>.at(t, h)\<close> for every sample, and \<open>);\<close>.  \<open>Call f a\<close> is the
  line \<open>f(a);\<close>.  All other lines are texts.
\<close>

datatype rline =
    Text string
  | TurnPID int string
  | DrivePID real int
  | StrafePID real int
  | ArcCmd real real "(real \<times> int) list"
  | Call string string

text \<open>
  The loop \<open>for (let s = 1; s <= 10; s++)\<close> that sums the chords of the curve with the
  control points \<open>P0\<close>, \<open>P1\<close>, \<open>P2\<close>, sampled at \<open>t = s / 10\<close>.
\<close>

function chord_loop :: "nat \<Rightarrow> point \<Rightarrow> point \<Rightarrow> point \<Rightarrow> real \<Rightarrow> point \<Rightarrow> real" where
  "chord_loop s P0 P1 P2 approxLen lastPt =
     (if s \<le> 10
      then (let t = real s / 10;
                mt = 1 - t;
                px = mt * mt * x_m P0 + 2 * mt * t * x_m P1 + t * t * x_m P2;
                py = mt * mt * y_m P0 + 2 * mt * t * y_m P1 + t * t * y_m P2
            in chord_loop (s + 1) P0 P1 P2
                 (approxLen + hypot (px - x_m lastPt) (py - y_m lastPt))
                 \<lparr>x_m = px, y_m = py\<rparr>)
      else approxLen)"
  by pat_completeness auto
termination
  by (relation "measure (\<lambda>(s, P0, P1, P2, approxLen, lastPt). 11 - s)") auto

text \<open>
  The loop \<open>for (let s = 1; s < arcSamples; s++)\<close> that appends the heading samples
  between the two ends, each the direction of the curve's first derivative at
  \<open>t = s / arcSamples\<close>, in degrees and rounded.
\<close>

function sample_loop :: "int \<Rightarrow> int \<Rightarrow> point \<Rightarrow> point \<Rightarrow> point \<Rightarrow> (real \<times> int) list" where
  "sample_loop s n P0 P1 P2 =
     (if s < n
      then (let t = real_of_int s / real_of_int n;
                mt = 1 - t;
                dx = 2 * mt * (x_m P1 - x_m P0) + 2 * t * (x_m P2 - x_m P1);
                dy = 2 * mt * (y_m P1 - y_m P0) + 2 * t * (y_m P2 - y_m P1);
                h = radToDeg (atan2 dy dx)
            in (t, round h) # sample_loop (s + 1) n P0 P1 P2)
      else [])"
  by pat_completeness auto
termination
  by (relation "measure (\<lambda>(s, n, P0, P1, P2). nat (n - s))") auto

declare chord_loop.simps [simp del] sample_loop.simps [simp del]

text \<open>
  The branch for a segment of type \<open>arc\<close>: \<open>prev\<close> and \<open>cur\<close> are the two ends, \<open>d\<close> is their
  distance \<open>dist\<close>, \<open>n\<close> the value of \<open>arcSamples\<close>.
\<close>

definition arc_command :: "point \<Rightarrow> waypoint \<Rightarrow> real \<Rightarrow> real \<Rightarrow> int \<Rightarrow> rline" where
  "arc_command prev cur d speed n =
     (let startH = (0 :: real);
          endH = radToDeg (- h_rad cur);
          travelDist = (case arcControlPoint cur of
                          None \<Rightarrow> d
                        | Some P1 \<Rightarrow> chord_loop 1 prev P1 (pt cur) 0 prev)
      in ArcCmd travelDist speed
           ([(0, round startH)] @
            (case arcControlPoint cur of
               None \<Rightarrow> []
             | Some P1 \<Rightarrow> sample_loop 1 n prev P1 (pt cur)) @
            [(1, round endH)]))"

text \<open>
  The lines for an action waypoint: \<open>cur.isAction && cur.actionId\<close> and the marker with
  that id (the first in the list).
\<close>

definition action_lines :: "marker list \<Rightarrow> waypoint \<Rightarrow> rline list" where
  "action_lines ms cur =
     (if isAction cur \<and> (case actionId cur of None \<Rightarrow> False | Some i \<Rightarrow> i \<noteq> 0)
      then (case find (\<lambda>m. Some (marker_id m) = actionId cur) ms of
              None \<Rightarrow> []
            | Some a \<Rightarrow> [Text [], Text (''// Action: '' @ name a), Call (name a) (args a)])
      else [])"

text \<open>
  The body of the loop over the consecutive pairs of \<open>[start].concat(waypoints)\<close>.  The
  variable \<open>curHeading\<close> is assigned and never read, and is left out.
\<close>

definition segment_lines :: "marker list \<Rightarrow> int \<Rightarrow> point \<Rightarrow> waypoint \<Rightarrow> rline list" where
  "segment_lines ms n prev cur =
     (let dx = x_m cur - x_m prev;
          dy = y_m cur - y_m prev;
          dist = sqrt (dx * dx + dy * dy)
      in if dist < 1 / 1000
         then (if \<bar>h_rad cur\<bar> > 1 / 10000
               then [TurnPID (round (radToDeg (- h_rad cur))) '' // snap to waypoint heading'']
               else [])
         else
           (let segAngleDeg = radToDeg (atan2 dy dx);
                segType = (case segmentType cur of None \<Rightarrow> Drive | Some t \<Rightarrow> t);
                speed = (case arcSpeed cur of None \<Rightarrow> 8 / 10 | Some v \<Rightarrow> if v = 0 then 8 / 10 else v)
            in (if segType = Arc then [arc_command prev cur dist speed n]
                else if segType = Strafe then [StrafePID dist (round segAngleDeg)]
                else [TurnPID (round segAngleDeg) [], DrivePID dist (round segAngleDeg)]) @
               (if \<bar>h_rad cur\<bar> > 1 / 10000 \<and> segType \<noteq> Arc
                then (let wh = radToDeg (- h_rad cur);
                          delta = wrapDeg (wh - segAngleDeg)
                      in if \<bar>delta\<bar> > 1 then [TurnPID (round wh) '' // waypoint heading''] else [])
                else []) @
               action_lines ms cur))"

fun robot_segments :: "marker list \<Rightarrow> int \<Rightarrow> point \<Rightarrow> waypoint list \<Rightarrow> rline list" where
  "robot_segments ms n prev [] = []"
| "robot_segments ms n prev (cur # ws) = segment_lines ms n prev cur @ robot_segments ms n (pt cur) ws"

definition generateRobotOrientedCode :: "state \<Rightarrow> rline list" where
  "generateRobotOrientedCode s =
     [Text ''// Robot-Oriented Path (using OdoEngine)'',
      Text ''// Start: x=0.00 y=0.00 h=0deg (always relative to origin)'',
      Text [],
      TurnPID 0 '' // face start heading''] @
     robot_segments (markers s) (arcSamples s) (pt (start s)) (waypoints s)"






text \<open>The first line of a program that is a command, not a comment or an empty line.\<close>

definition is_command :: "rline \<Rightarrow> bool" where
  "is_command l = (case l of Text t \<Rightarrow> False | _ \<Rightarrow> True)"

definition first_command :: "rline list \<Rightarrow> rline option" where
  "first_command ls = find is_command ls"

section \<open>Sessions\<close>

text \<open>
  What the user can do, as a datatype of events, and the states a session can be in: those
  that some sequence of events produces from the initial state.  A \<open>Simulated n\<close> event is
  a call of \<open>simulate\<close> together with \<open>n\<close> of its steps.
\<close>

datatype event =
    AddWaypoint point
  | SelectWaypoint nat
  | SetStart point
  | ClickMarker nat
  | AddAction "string option" "string option" point real
  | DragWaypoint nat point
  | DragStart point
  | DragHeading nat real
  | DragStartHeading real
  | DragArcControl nat point
  | Retype segment
  | SetArcSpeed real
  | SetArcSamples int
  | SetSimSpeed real
  | SetMode mode
  | DeleteSelected
  | ClearPath
  | Undo
  | Decode string
  | Simulated nat

fun handle :: "event \<Rightarrow> state \<Rightarrow> state" where
  "handle (AddWaypoint m) s = addWaypoint m s"
| "handle (SelectWaypoint i) s = selectWaypoint i s"
| "handle (SetStart m) s = setStart m s"
| "handle (ClickMarker i) s = clickMarker i s"
| "handle (AddAction nm ar m tol) s = addAction nm ar m tol s"
| "handle (DragWaypoint i m) s = dragWaypoint i m s"
| "handle (DragStart m) s = dragStart m s"
| "handle (DragHeading i a) s = dragHeading i a s"
| "handle (DragStartHeading a) s = dragStartHeading a s"
| "handle (DragArcControl i m) s = dragArcControl i m s"
| "handle (Retype v) s = retype v s"
| "handle (SetArcSpeed v) s = setArcSpeed v s"
| "handle (SetArcSamples n) s = setArcSamples n s"
| "handle (SetSimSpeed v) s = setSimSpeed v s"
| "handle (SetMode m) s = setMode m s"
| "handle DeleteSelected s = deleteSelectedPoint s"
| "handle ClearPath s = clearPath s"
| "handle Undo s = undo s"
| "handle (Decode code) s = snd (decodeAndVisualize code s)"
| "handle (Simulated n) s = (case simulation n s of None \<Rightarrow> s | Some sr \<Rightarrow> fst sr)"

inductive reachable :: "state \<Rightarrow> bool" where
  reachable_initial: "reachable initial_state"
| reachable_handle: "reachable s \<Longrightarrow> reachable (handle e s)"

text \<open>
  \<open>drawn\<close>: \<open>draw\<close> has nothing left to fill in.  Outside field mode every arc waypoint has
  its control point.
\<close>

definition drawn :: "state \<Rightarrow> bool" where
  "drawn s =
     (currentMode s = Field \<or>
      (\<forall>w \<in> set (waypoints s). segmentType w = Some Arc \<longrightarrow> arcControlPoint w \<noteq> None))"

text \<open>
  \<open>saves e s\<close>: in state \<open>s\<close> the handler of \<open>e\<close> passes its guard and calls \<open>saveState\<close>
  before it changes the path.  \<open>snapshot_states es s\<close> lists, for the events of \<open>es\<close> handled
  one after the other from \<open>s\<close>, the states in which an event took a snapshot.
\<close>

fun saves :: "event \<Rightarrow> state \<Rightarrow> bool" where
  "saves (AddWaypoint m) s = True"
| "saves (SetStart m) s = (currentMode s \<noteq> Robot)"
| "saves (ClickMarker i) s = (i < length (markers s))"
| "saves (AddAction nm ar m tol) s = (case nm of None \<Rightarrow> False | Some n \<Rightarrow> trim n \<noteq> [])"
| "saves (Retype v) s =
     (case selectedSegmentIdx s of None \<Rightarrow> False | Some i \<Rightarrow> i < length (waypoints s))"
| "saves (SetArcSpeed v) s =
     (case selectedSegmentIdx s of None \<Rightarrow> False | Some i \<Rightarrow> i < length (waypoints s))"
| "saves DeleteSelected s =
     (case selectedSegmentIdx s of None \<Rightarrow> False | Some i \<Rightarrow> i < length (waypoints s))"
| "saves ClearPath s = True"
| "saves (Decode code) s = (trim code \<noteq> [])"
| "saves e s = False"

fun snapshot_states :: "event list \<Rightarrow> state \<Rightarrow> state list" where
  "snapshot_states [] s = []"
| "snapshot_states (e # es) s = (if saves e s then [s] else []) @ snapshot_states es (handle e s)"

text \<open>
  \<open>cache_filled s s'\<close>: \<open>s'\<close> is \<open>s\<close> except for the running flag \<open>isSimulating\<close> and for arc
  waypoints that had no control point in \<open>s\<close> and have the default one in \<open>s'\<close>.
\<close>

definition prev_point :: "state \<Rightarrow> nat \<Rightarrow> point" where
  "prev_point s i = (if i = 0 then pt (start s) else pt (waypoints s ! (i - 1)))"

definition filled_waypoint :: "state \<Rightarrow> nat \<Rightarrow> waypoint" where
  "filled_waypoint s i =
     (waypoints s ! i)\<lparr>arcControlPoint :=
        Some (computeDefaultArcControl (prev_point s i) (pt (waypoints s ! i)))\<rparr>"

definition cache_filled :: "state \<Rightarrow> state \<Rightarrow> bool" where
  "cache_filled s s' =
     (start s' = start s \<and> markers s' = markers s \<and>
      selectedSegmentIdx s' = selectedSegmentIdx s \<and> history s' = history s \<and>
      nextMarkerId s' = nextMarkerId s \<and> currentMode s' = currentMode s \<and>
      arcSamples s' = arcSamples s \<and> simSpeed s' = simSpeed s \<and>
      length (waypoints s') = length (waypoints s) \<and>
      (\<forall>i < length (waypoints s).
         waypoints s' ! i = waypoints s ! i \<or>
         (segmentType (waypoints s ! i) = Some Arc \<and> arcControlPoint (waypoints s ! i) = None \<and>
          waypoints s' ! i = filled_waypoint s i)))"

section \<open>Example sessions\<close>

text \<open>Three clicks on the empty field, at \<open>(1, 0)\<close>, \<open>(1, 1)\<close> and \<open>(2, 1)\<close>.\<close>

definition three_clicks :: state where
  "three_clicks =
     addWaypoint \<lparr>x_m = 2, y_m = 1\<rparr>
       (addWaypoint \<lparr>x_m = 1, y_m = 1\<rparr> (addWaypoint \<lparr>x_m = 1, y_m = 0\<rparr> initial_state))"

text \<open>
  Two clicks, at \<open>(1, 0)\<close> and \<open>(2, 0)\<close>, the second waypoint then retyped to an arc, and
  the speed multiplier set to \<open>100\<close>.
\<close>

definition arc_session :: state where
  "arc_session =
     setSimSpeed 100
       (retype Arc (addWaypoint \<lparr>x_m = 2, y_m = 0\<rparr> (addWaypoint \<lparr>x_m = 1, y_m = 0\<rparr> initial_state)))"

text \<open>
  One click at \<open>(1, 0)\<close>, and 21 moves of the waypoint by dragging, to \<open>(1, 1)\<close>, \<open>(2, 1)\<close>
  and so on up to \<open>(21, 1)\<close>.
\<close>

definition one_click :: state where
  "one_click = addWaypoint \<lparr>x_m = 1, y_m = 0\<rparr> initial_state"

definition drag_targets :: "point list" where
  "drag_targets = map (\<lambda>k. \<lparr>x_m = real k, y_m = 1\<rparr>) [1..<22]"

definition drags :: "event list" where
  "drags = map (DragWaypoint 0) drag_targets"

text \<open>
  A path from the origin to \<open>(0, 1)\<close>, the waypoint's heading being that of the segment
  (\<open>90\<close> degrees), and a run about to finish the drive.
\<close>

definition north_state :: state where
  "north_state =
     initial_state\<lparr>waypoints := [decoded_waypoint 0 1 (- (pi / 2)) Drive (8 / 10)],
                    isSimulating := True\<rparr>"

definition north_run :: run where
  "north_run =
     \<lparr>seg = 0, phase = PDrive, pos = \<lparr>x_m = 0, y_m = 99 / 100\<rparr>, heading = 90,
      driveProgress = 99 / 100, distanceTraveled = 99 / 100, totalDistance = 1,
      pathPoints = [], simIndex = 0\<rparr>"

text \<open>The initial state after the start's heading handle was dragged to a quarter turn.\<close>

definition quarter_turn_start :: state where
  "quarter_turn_start = dragStartHeading (pi / 2) initial_state"


definition origin :: point where
  "origin = \<lparr>x_m = 0, y_m = 0\<rparr>"

section \<open>Angle normalization\<close>


lemma wrapDown_gt: "- 180 < d \<Longrightarrow> - 180 < wrapDown d"
  by (induction d rule: wrapDown.induct) (subst wrapDown.simps, simp)

lemma wrapDown_id: "d \<le> 180 \<Longrightarrow> wrapDown d = d"
  by (subst wrapDown.simps) simp




lemma wrapUp_id: "- 180 \<le> d \<Longrightarrow> wrapUp d = d"
  by (subst wrapUp.simps) simp



lemma wrapDeg_small: "- 180 \<le> d \<Longrightarrow> d \<le> 180 \<Longrightarrow> wrapDeg d = d"
  by (simp add: wrapDeg_def wrapDown_id wrapUp_id)





section \<open>What the handlers leave unchanged\<close>

lemma draw_fields [simp]:
  "history (draw s) = history s" "markers (draw s) = markers s" "start (draw s) = start s"
  "selectedSegmentIdx (draw s) = selectedSegmentIdx s" "currentMode (draw s) = currentMode s"
  "nextMarkerId (draw s) = nextMarkerId s" "isSimulating (draw s) = isSimulating s"
  "arcSamples (draw s) = arcSamples s" "simSpeed (draw s) = simSpeed s"
  by (simp_all add: draw_def)

lemma length_draw_fill [simp]: "length (draw_fill p ws) = length ws"
  by (induction ws arbitrary: p) simp_all

lemma length_waypoints_draw [simp]: "length (waypoints (draw s)) = length (waypoints s)"
  by (simp add: draw_def)

lemma cache_filled_refl [simp]: "cache_filled s s"
  by (simp add: cache_filled_def)

lemma cache_filled_isSimulating: "cache_filled s s1 \<Longrightarrow> cache_filled s (s1\<lparr>isSimulating := b\<rparr>)"
  unfolding cache_filled_def by simp

lemma draw_fill_nth:
  "i < length ws \<Longrightarrow>
   draw_fill p ws ! i =
     (if segmentType (ws ! i) = Some Arc \<and> arcControlPoint (ws ! i) = None
      then (ws ! i)\<lparr>arcControlPoint :=
              Some (computeDefaultArcControl (if i = 0 then p else pt (ws ! (i - 1))) (pt (ws ! i)))\<rparr>
      else ws ! i)"
proof (induction ws arbitrary: p i)
  case Nil
  then show ?case by simp
next
  case (Cons w ws)
  show ?case
  proof (cases i)
    case 0
    then show ?thesis by simp
  next
    case (Suc j)
    then have j: "j < length ws" using Cons.prems by simp
    show ?thesis using Cons.IH [OF j, of "pt w"] Suc by (cases j) simp_all
  qed
qed

lemma pt_cache [simp]: "pt (w\<lparr>arcControlPoint := c\<rparr>) = pt w"
  by (simp add: pt_def)

lemma cache_filled_same_geometry:
  assumes "cache_filled s s1" and "i < length (waypoints s)"
  shows "pt (waypoints s1 ! i) = pt (waypoints s ! i)"
    and "segmentType (waypoints s1 ! i) = segmentType (waypoints s ! i)"
    and "arcControlPoint (waypoints s ! i) \<noteq> None \<Longrightarrow> waypoints s1 ! i = waypoints s ! i"
  using assms unfolding cache_filled_def filled_waypoint_def by auto

lemma cache_filled_start: "cache_filled s s1 \<Longrightarrow> start s1 = start s"
  unfolding cache_filled_def by auto

lemma cache_filled_prev:
  assumes "cache_filled s s1" and "i < length (waypoints s)"
  shows "prev_point s1 i = prev_point s i"
  using cache_filled_same_geometry(1) [OF assms(1), of "i - 1"] cache_filled_start [OF assms(1)] assms(2)
  by (simp add: prev_point_def)

lemma cache_filled_draw:
  assumes "cache_filled s s1"
  shows "cache_filled s (draw s1)"
proof (cases "currentMode s1 = Field")
  case True
  then show ?thesis using assms by (simp add: draw_def)
next
  case False
  have len: "length (waypoints s1) = length (waypoints s)"
    using assms by (simp add: cache_filled_def)
  have "waypoints (draw s1) ! i = waypoints s ! i \<or>
        (segmentType (waypoints s ! i) = Some Arc \<and> arcControlPoint (waypoints s ! i) = None \<and>
         waypoints (draw s1) ! i = filled_waypoint s i)"
    if i: "i < length (waypoints s)" for i
  proof -
    have i1: "i < length (waypoints s1)" using i len by simp
    have w: "waypoints (draw s1) ! i =
       (if segmentType (waypoints s1 ! i) = Some Arc \<and> arcControlPoint (waypoints s1 ! i) = None
        then (waypoints s1 ! i)\<lparr>arcControlPoint :=
                Some (computeDefaultArcControl (prev_point s1 i) (pt (waypoints s1 ! i)))\<rparr>
        else waypoints s1 ! i)"
      using False draw_fill_nth [OF i1, of "pt (start s1)"] by (simp add: draw_def prev_point_def)
    have old: "waypoints s1 ! i = waypoints s ! i \<or>
        (segmentType (waypoints s ! i) = Some Arc \<and> arcControlPoint (waypoints s ! i) = None \<and>
         waypoints s1 ! i = filled_waypoint s i)"
      using assms i by (simp add: cache_filled_def)
    show ?thesis
      using old w cache_filled_prev [OF assms i]
      by (auto simp: filled_waypoint_def)
  qed
  then show ?thesis using assms by (simp add: cache_filled_def)
qed

lemma cache_filled_getArcControlPoint:
  assumes "cache_filled s s1"
  shows "cache_filled s (snd (getArcControlPoint k s1))"
proof (cases "1 \<le> k \<and> k < length (waypoints s1) \<and> segmentType (waypoints s1 ! k) = Some Arc
              \<and> arcControlPoint (waypoints s1 ! k) = None")
  case False
  then have "snd (getArcControlPoint k s1) = s1"
    by (auto simp: getArcControlPoint_def Let_def split: option.splits)
  then show ?thesis using assms by simp
next
  case True
  have len: "length (waypoints s1) = length (waypoints s)"
    using assms by (simp add: cache_filled_def)
  have k: "k < length (waypoints s)" using True len by simp
  have g: "snd (getArcControlPoint k s1) =
     s1\<lparr>waypoints := (waypoints s1)[k := (waypoints s1 ! k)\<lparr>arcControlPoint :=
        Some (computeDefaultArcControl (prev_point s1 k) (pt (waypoints s1 ! k)))\<rparr>]\<rparr>"
    using True by (simp add: getArcControlPoint_def Let_def prev_point_def)
  have old: "waypoints s1 ! k = waypoints s ! k"
    using assms k True by (auto simp: cache_filled_def filled_waypoint_def)
  have new: "(waypoints s1 ! k)\<lparr>arcControlPoint :=
        Some (computeDefaultArcControl (prev_point s1 k) (pt (waypoints s1 ! k)))\<rparr> = filled_waypoint s k"
    using old cache_filled_prev [OF assms k] by (simp add: filled_waypoint_def)
  show ?thesis
    unfolding g new using assms True old k
    by (auto simp: cache_filled_def nth_list_update)
qed

lemma cache_filled_finish_step:
  "cache_filled s (fst sr) \<Longrightarrow> cache_filled s (fst (finish_step sr))"
  by (simp add: finish_step_def Let_def cache_filled_draw cache_filled_isSimulating)

lemma cache_filled_step:
  assumes c: "cache_filled s (fst sr)" and st: "step dt sr = Some sr'"
  shows "cache_filled s (fst sr')"
proof (cases "isSimulating (fst sr)")
  case False
  then show ?thesis using c st by (simp add: step_def Let_def)
next
  case sim: True
  show ?thesis
  proof (cases "seg (snd sr) < length (points (fst sr)) - 1")
    case False
    then show ?thesis using sim c st
      by (auto simp add: step_def Let_def cache_filled_draw cache_filled_isSimulating)
  next
    case True
    have fin: "cache_filled s (fst (finish_step (fst sr, r)))" for r
      using cache_filled_finish_step [of s "(fst sr, r)"] c by simp
    have fin2: "cache_filled s (fst (finish_step (snd (getArcControlPoint k (fst sr)), r)))" for r k
      using cache_filled_finish_step [of s "(snd (getArcControlPoint k (fst sr)), r)"]
        cache_filled_getArcControlPoint [OF c] by simp
    show ?thesis using True sim st
      by (cases "phase (snd sr)")
         (auto simp add: step_def Let_def fin fin2 split: option.splits if_splits)
  qed
qed

lemma cache_filled_stepField:
  "cache_filled s (fst sr) \<Longrightarrow> stepField dt sr = Some sr' \<Longrightarrow> cache_filled s (fst sr')"
  by (auto simp: stepField_def Let_def cache_filled_draw cache_filled_isSimulating split: if_splits)

lemma cache_filled_precalc_arc: "cache_filled s s1 \<Longrightarrow> cache_filled s (precalc_arc i s1)"
  by (simp add: precalc_arc_def cache_filled_getArcControlPoint)

lemma cache_filled_fold_precalc:
  "cache_filled s s1 \<Longrightarrow> cache_filled s (fold precalc_arc is s1)"
  by (induction "is" arbitrary: s1) (simp_all add: cache_filled_precalc_arc)

lemma cache_filled_simulate: "simulate s = Some sr \<Longrightarrow> cache_filled s (fst sr)"
  using cache_filled_fold_precalc [of s "s\<lparr>isSimulating := True\<rparr>"]
    cache_filled_isSimulating [of s s True]
  by (auto simp: simulate_def Let_def split: if_splits)

lemma steps_invariant:
  assumes "\<And>sr sr'. P (fst sr) \<Longrightarrow> f sr = Some sr' \<Longrightarrow> P (fst sr')"
  shows "P (fst sr) \<Longrightarrow> steps n f sr = Some sr' \<Longrightarrow> P (fst sr')"
  by (induction n arbitrary: sr) (auto split: option.splits dest: assms)

lemma cache_filled_simulation:
  assumes "simulation n s = Some sr"
  shows "cache_filled s (fst sr)"
proof -
  obtain sr0 where s0: "simulate s = Some sr0"
    and st: "steps n (if currentMode s = Field then stepField 16 else step 16) sr0 = Some sr"
    using assms by (auto simp: simulation_def split: option.splits)
  have c0: "cache_filled s (fst sr0)" using cache_filled_simulate [OF s0] .
  show ?thesis
  proof (cases "currentMode s = Field")
    case True
    then show ?thesis
      using steps_invariant [of "cache_filled s" "stepField 16", OF cache_filled_stepField c0] st by simp
  next
    case False
    then show ?thesis
      using steps_invariant [of "cache_filled s" "step 16", OF cache_filled_step c0] st by simp
  qed
qed


lemma draw_fill_complete:
  "w \<in> set (draw_fill p ws) \<Longrightarrow> segmentType w = Some Arc \<Longrightarrow> arcControlPoint w \<noteq> None"
  by (induction ws arbitrary: p) (auto split: if_splits)

lemma draw_fill_id:
  "\<forall>w \<in> set ws. segmentType w = Some Arc \<longrightarrow> arcControlPoint w \<noteq> None \<Longrightarrow> draw_fill p ws = ws"
  by (induction ws arbitrary: p) auto

lemma drawn_draw [simp]: "drawn (draw s)"
  by (auto simp: drawn_def draw_def dest: draw_fill_complete) 

lemma draw_id: "drawn s \<Longrightarrow> draw s = s"
  by (auto simp: drawn_def draw_def draw_fill_id) 

lemma saveState_fields [simp]:
  "waypoints (saveState s) = waypoints s" "markers (saveState s) = markers s"
  "start (saveState s) = start s" "selectedSegmentIdx (saveState s) = selectedSegmentIdx s"
  "currentMode (saveState s) = currentMode s" "nextMarkerId (saveState s) = nextMarkerId s"
  "isSimulating (saveState s) = isSimulating s" "arcSamples (saveState s) = arcSamples s"
  "simSpeed (saveState s) = simSpeed s"
  by (simp_all add: saveState_def Let_def)

lemma history_saveState:
  "history (saveState s) =
     (if length (history s) \<ge> 20 then tl (history s) @ [snapshot.truncate s]
      else history s @ [snapshot.truncate s])"
  by (cases "history s") (auto simp: saveState_def Let_def)

lemma history_saveState_ne [simp]: "history (saveState s) \<noteq> []"
  by (simp add: history_saveState)

lemma last_history_saveState [simp]: "last (history (saveState s)) = snapshot.truncate s"
  by (simp add: history_saveState)

lemma length_history_saveState:
  "length (history (saveState s)) = (if length (history s) \<ge> 20 then length (history s) else length (history s) + 1)"
  by (cases "history s") (auto simp: history_saveState)

lemma history_decode:
  "trim code \<noteq> [] \<Longrightarrow> history (snd (decodeAndVisualize code s)) = history (saveState s)"
  by (simp add: decodeAndVisualize_def Let_def)

lemma mode_decode [simp]: "currentMode (snd (decodeAndVisualize code s)) = currentMode s"
  by (simp add: decodeAndVisualize_def Let_def)

lemma drawn_cong:
  "currentMode s' = currentMode s \<Longrightarrow> waypoints s' = waypoints s \<Longrightarrow> drawn s' = drawn s"
  by (simp add: drawn_def)

lemma drawn_saveState [simp]: "drawn (saveState s) = drawn s"
  by (simp add: drawn_def)

lemma drawn_update_arcSpeed:
  "drawn s \<Longrightarrow> i < length (waypoints s) \<Longrightarrow>
   drawn (s\<lparr>waypoints := (waypoints s)[i := (waypoints s ! i)\<lparr>arcSpeed := v\<rparr>]\<rparr>)"
  unfolding drawn_def
  by (auto dest!: set_update_subset_insert [THEN subsetD])

lemma getArcControlPoint_fields [simp]:
  "history (snd (getArcControlPoint i s)) = history s"
  "markers (snd (getArcControlPoint i s)) = markers s"
  "start (snd (getArcControlPoint i s)) = start s"
  "selectedSegmentIdx (snd (getArcControlPoint i s)) = selectedSegmentIdx s"
  "currentMode (snd (getArcControlPoint i s)) = currentMode s"
  "nextMarkerId (snd (getArcControlPoint i s)) = nextMarkerId s"
  "isSimulating (snd (getArcControlPoint i s)) = isSimulating s"
  "arcSamples (snd (getArcControlPoint i s)) = arcSamples s"
  "simSpeed (snd (getArcControlPoint i s)) = simSpeed s"
  by (simp_all add: getArcControlPoint_def Let_def split: option.splits)

lemma getArcControlPoint_drawn_id:
  "drawn s \<Longrightarrow> currentMode s = Robot \<Longrightarrow> snd (getArcControlPoint i s) = s"
  by (auto simp: getArcControlPoint_def Let_def drawn_def split: option.splits)

lemma precalc_arc_drawn_id: "drawn s \<Longrightarrow> precalc_arc i s = s"
  by (simp add: precalc_arc_def getArcControlPoint_drawn_id)

lemma fold_precalc_arc_drawn_id: "drawn s \<Longrightarrow> fold precalc_arc is s = s"
  by (induction "is") (simp_all add: precalc_arc_drawn_id)

lemma drawn_other_fields [simp]:
  "drawn (s\<lparr>isSimulating := b\<rparr>) = drawn s"
  "drawn (s\<lparr>selectedSegmentIdx := i\<rparr>) = drawn s"
  "drawn (s\<lparr>arcSamples := n\<rparr>) = drawn s"
  "drawn (s\<lparr>simSpeed := v\<rparr>) = drawn s"
  by (simp_all add: drawn_def)

lemma simulate_drawn: "drawn s \<Longrightarrow> simulate s = Some sr \<Longrightarrow> drawn (fst sr)"
  by (auto simp: simulate_def Let_def fold_precalc_arc_drawn_id split: if_splits)

lemma drawn_finish_step [simp]: "drawn (fst (finish_step sr))"
  by (simp add: finish_step_def Let_def)


lemma step_drawn: "drawn (fst sr) \<Longrightarrow> step dt sr = Some sr' \<Longrightarrow> drawn (fst sr')"
proof -
  assume d: "drawn (fst sr)" and st: "step dt sr = Some sr'"
  show ?thesis
  proof (cases "isSimulating (fst sr)")
    case False
    then show ?thesis using d st by (simp add: step_def Let_def)
  next
    case sim: True
    show ?thesis
    proof (cases "seg (snd sr) < length (points (fst sr)) - 1")
      case False
      then show ?thesis using sim d st by (auto simp add: step_def Let_def)
    next
      case True
      then show ?thesis using sim st
        by (cases "phase (snd sr)")
           (auto simp add: step_def Let_def split: option.splits if_splits)
    qed
  qed
qed

lemma stepField_drawn: "drawn (fst sr) \<Longrightarrow> stepField dt sr = Some sr' \<Longrightarrow> drawn (fst sr')"
  by (auto simp: stepField_def Let_def split: if_splits)

lemma simulation_drawn:
  assumes "drawn s" and "simulation n s = Some sr"
  shows "drawn (fst sr)"
proof -
  obtain sr0 where s0: "simulate s = Some sr0"
    and st: "steps n (if currentMode s = Field then stepField 16 else step 16) sr0 = Some sr"
    using assms(2) by (auto simp: simulation_def split: option.splits)
  have d0: "drawn (fst sr0)" using simulate_drawn [OF assms(1) s0] .
  show ?thesis
  proof (cases "currentMode s = Field")
    case True
    then show ?thesis using steps_invariant [of drawn "stepField 16", OF stepField_drawn d0] st by simp
  next
    case False
    then show ?thesis using steps_invariant [of drawn "step 16", OF step_drawn d0] st by simp
  qed
qed

lemma decode_drawn: "drawn s \<Longrightarrow> drawn (snd (decodeAndVisualize code s))"
  by (simp add: decodeAndVisualize_def Let_def) (simp add: drawn_def)

lemma addWaypoint_drawn: "drawn (addWaypoint m s)"
  by (simp add: addWaypoint_def Let_def)

lemma selectWaypoint_drawn: "drawn s \<Longrightarrow> drawn (selectWaypoint i s)"
  by (simp add: selectWaypoint_def)

lemma setStart_drawn: "drawn s \<Longrightarrow> drawn (setStart m s)"
  by (simp add: setStart_def)

lemma clickMarker_drawn: "drawn s \<Longrightarrow> drawn (clickMarker i s)"
  by (simp add: clickMarker_def Let_def)

lemma addAction_drawn: "drawn (addAction nm ar m tol s)"
  by (simp add: addAction_def Let_def split: option.splits)

lemma dragWaypoint_drawn: "drawn s \<Longrightarrow> drawn (dragWaypoint i m s)"
  by (simp add: dragWaypoint_def Let_def)

lemma dragHeading_drawn: "drawn s \<Longrightarrow> drawn (dragHeading i a s)"
  by (simp add: dragHeading_def)

lemma dragArcControl_drawn: "drawn s \<Longrightarrow> drawn (dragArcControl i m s)"
  by (simp add: dragArcControl_def Let_def)

lemma retype_drawn: "drawn s \<Longrightarrow> drawn (retype v s)"
  by (simp add: retype_def Let_def split: option.splits)

lemma setArcSpeed_drawn: "drawn s \<Longrightarrow> drawn (setArcSpeed v s)"
  using drawn_update_arcSpeed [of "saveState s"]
  by (simp add: setArcSpeed_def Let_def split: option.splits)

lemma deleteSelectedPoint_drawn: "drawn s \<Longrightarrow> drawn (deleteSelectedPoint s)"
  by (simp add: deleteSelectedPoint_def split: option.splits)

lemma undo_drawn: "drawn s \<Longrightarrow> drawn (undo s)"
  by (simp add: undo_def Let_def)

lemma handle_drawn: "drawn s \<Longrightarrow> drawn (handle e s)"
proof (cases e)
  case (Simulated n)
  assume "drawn s"
  then show ?thesis using Simulated
    by (auto split: option.splits dest: simulation_drawn)
qed (simp_all add: addWaypoint_drawn selectWaypoint_drawn setStart_drawn clickMarker_drawn
      addAction_drawn dragWaypoint_drawn dragHeading_drawn dragArcControl_drawn retype_drawn
      setArcSpeed_drawn deleteSelectedPoint_drawn undo_drawn decode_drawn
      dragStart_def dragStartHeading_def setArcSamples_def setSimSpeed_def setMode_def
      clearPath_def)

lemma initial_drawn: "drawn initial_state"
  by (simp add: drawn_def initial_state_def)

lemma reachable_drawn: "reachable s \<Longrightarrow> drawn s"
  by (induction rule: reachable.induct) (simp_all add: handle_drawn initial_drawn)

section \<open>The simulator and the path\<close>




lemma hypot_simps [simp]: "hypot 0 0 = 0" "hypot 1 0 = 1" "hypot 0 1 = 1"
  by (simp_all add: hypot_def)

lemma atan2_simps [simp]: "atan2 0 1 = 0" "atan2 1 0 = pi / 2" "atan2 0 0 = 0"
  by (simp_all add: atan2_def)

lemma radToDeg_simps [simp]: "radToDeg 0 = 0" "radToDeg (pi / 2) = 90"
  by (simp_all add: radToDeg_def)

lemma wrapDeg_simps [simp]: "wrapDeg 0 = 0" "wrapDeg 90 = 90"
  by (simp_all add: wrapDeg_small)


lemma arc_session_waypoints:
  "waypoints arc_session =
      [\<lparr>x_m = 1, y_m = 0, h_rad = 0, segmentType = Some Drive,
        arcSpeed = Some (8 / 10), arcControlPoint = None, isAction = False, actionId = None\<rparr>,
       \<lparr>x_m = 2, y_m = 0, h_rad = 0, segmentType = Some Arc,
        arcSpeed = Some (8 / 10), arcControlPoint = Some \<lparr>x_m = 3 / 2, y_m = 3 / 10\<rparr>,
        isAction = False, actionId = None\<rparr>]"
  by (simp add: arc_session_def setSimSpeed_def retype_def addWaypoint_def saveState_def Let_def
      initial_state_def draw_def computeDefaultArcControl_def pt_def)



lemma arc_drawn: "drawn (arc_session\<lparr>isSimulating := b\<rparr>)"
  by (simp add: drawn_def arc_session_waypoints)

lemma arc_draw [simp]: "draw (arc_session\<lparr>isSimulating := b\<rparr>) = arc_session\<lparr>isSimulating := b\<rparr>"
  by (rule draw_id [OF arc_drawn])








lemma finish_step_run [simp]: "snd (finish_step sr) = snd sr"
  by (simp add: finish_step_def Let_def)

lemma arrive_cases:
  "phase (arrive pts r) = (if \<bar>radToDeg (- h_rad (pts ! (seg r + 1)))\<bar> > 1 / 10000 then PWpTurn else PTurn)"
  "seg (arrive pts r) = (if \<bar>radToDeg (- h_rad (pts ! (seg r + 1)))\<bar> > 1 / 10000 then seg r else seg r + 1)"
  by (simp_all add: arrive_def Let_def)

text \<open>
  C6, as the code has it.  In robot mode, when a step of a motion phase (drive, strafe or
  arc) computes \<open>frac >= 1\<close>, the next phase is \<open>wpTurn\<close>, with the segment index unchanged,
  if and only if the heading of the waypoint reached, converted to degrees and negated,
  exceeds \<open>0.0001\<close> in absolute value; otherwise the segment index advances by one and the
  next phase is \<open>turn\<close>.  The bearing of the segment plays no part.  When \<open>frac < 1\<close> phase
  and segment index stay.
\<close>

theorem motion_end_transition:
  assumes "isSimulating s" and "seg r < length (waypoints s)"
    and "phase r = PDrive \<or> phase r = PStrafe \<or> phase r = PArc"
    and "motion_frac dt s r = Some fr"
  shows "\<exists>sr'. step dt (s, r) = Some sr' \<and>
     (if fr \<ge> 1
      then (if \<bar>radToDeg (- h_rad (waypoints s ! seg r))\<bar> > 1 / 10000
            then phase (snd sr') = PWpTurn \<and> seg (snd sr') = seg r
            else phase (snd sr') = PTurn \<and> seg (snd sr') = seg r + 1)
      else phase (snd sr') = phase r \<and> seg (snd sr') = seg r)"
proof -
  have g: "seg r < length (points s) - 1" using assms(2) by (simp add: points_def)
  have n: "points s ! (seg r + 1) = waypoints s ! seg r" by (simp add: points_def)
  have f: "frac_of (driveProgress r + 8 / 10 * (dt / 1000) * simSpeed s)
             (seg_len (segInfo (points s) (seg r))) = Some fr"
    using assms(4) by (simp add: motion_frac_def)
  from assms(3) show ?thesis
  proof (elim disjE)
    assume "phase r = PDrive"
    then show ?thesis using assms(1) g f n
      by (simp add: step_def Let_def arrive_cases)
  next
    assume "phase r = PStrafe"
    then show ?thesis using assms(1) g f n
      by (simp add: step_def Let_def arrive_cases)
  next
    assume "phase r = PArc"
    then show ?thesis using assms(1) g f n
      by (simp add: step_def Let_def arrive_cases)
  qed
qed

lemma north_frac: "motion_frac 16 north_state north_run = Some 1"
  by (simp add: motion_frac_def frac_of_def north_state_def north_run_def initial_state_def
      points_def segInfo_def of_pose_def decoded_waypoint_def Let_def)

theorem motion_end_transition_witness:
  "isSimulating north_state \<and> seg north_run < length (waypoints north_state)
   \<and> phase north_run = PDrive \<and> motion_frac 16 north_state north_run = Some 1
   \<and> \<bar>radToDeg (- h_rad (waypoints north_state ! seg north_run))\<bar> > 1 / 10000
   \<and> map_option (phase \<circ> snd) (step 16 (north_state, north_run)) = Some PWpTurn
   \<and> map_option (seg \<circ> snd) (step 16 (north_state, north_run)) = Some 0"
proof -
  have a: "isSimulating north_state" "seg north_run < length (waypoints north_state)"
    "phase north_run = PDrive \<or> phase north_run = PStrafe \<or> phase north_run = PArc"
    by (simp_all add: north_state_def north_run_def initial_state_def)
  have h: "radToDeg (- h_rad (waypoints north_state ! seg north_run)) = 90"
    by (simp add: north_state_def north_run_def initial_state_def decoded_waypoint_def radToDeg_def)
  show ?thesis
    using motion_end_transition [OF a north_frac] a(1,2) north_frac h
    by (auto simp: north_run_def)
qed

text \<open>
  C6 as the specification states it fails when the heading of the waypoint reached equals
  the bearing of the segment: here both are \<open>90\<close> degrees, the drive completes, and the next
  phase is \<open>wpTurn\<close>.
\<close>

theorem wpTurn_at_segment_bearing_counterexample:
  "motion_frac 16 north_state north_run = Some 1
   \<and> radToDeg (- h_rad (waypoints north_state ! 0)) = seg_ang (segInfo (points north_state) 0)
   \<and> map_option (phase \<circ> snd) (step 16 (north_state, north_run)) = Some PWpTurn"
  by (simp add: north_frac)
     (simp add: north_state_def north_run_def initial_state_def decoded_waypoint_def
      points_def segInfo_def of_pose_def Let_def step_def frac_of_def arrive_def radToDeg_def
      finish_step_def draw_def)

section \<open>History, undo and the decoder\<close>

lemma history_simulation: "simulation n s = Some sr \<Longrightarrow> history (fst sr) = history s"
  using cache_filled_simulation [of n s sr] by (simp add: cache_filled_def)

lemma setMode_fields [simp]:
  "history (setMode m s) = history s"
  by (simp add: setMode_def)

lemma saves_history: "saves e s \<Longrightarrow> history (handle e s) = history (saveState s)"
proof (cases e)
  case (AddAction nm ar m tol)
  assume "saves e s"
  then show ?thesis using AddAction
    by (auto simp: addAction_def Let_def split: option.splits)
next
  case (Retype v)
  assume "saves e s"
  then show ?thesis using Retype
    by (auto simp: retype_def Let_def split: option.splits)
next
  case (Decode code)
  assume "saves e s"
  then show ?thesis using Decode by (simp add: history_decode)
qed (auto simp: addWaypoint_def setStart_def clickMarker_def setArcSpeed_def
      deleteSelectedPoint_def clearPath_def Let_def split: option.splits)

lemma not_saves_history:
  "\<not> saves e s \<Longrightarrow> history (handle e s) = (if e = Undo then butlast (history s) else history s)"
proof (cases e)
  case (AddAction nm ar m tol)
  assume "\<not> saves e s"
  then show ?thesis using AddAction
    by (auto simp: addAction_def Let_def split: option.splits)
next
  case (Retype v)
  assume "\<not> saves e s"
  then show ?thesis using Retype
    by (auto simp: retype_def Let_def split: option.splits)
next
  case (Decode code)
  assume "\<not> saves e s"
  then show ?thesis using Decode by (simp add: decodeAndVisualize_def)
next
  case (Simulated n)
  then show ?thesis by (auto split: option.splits dest: history_simulation)
next
  case Undo
  then show ?thesis by (simp add: undo_def Let_def)
qed (auto simp: selectWaypoint_def setStart_def clickMarker_def setArcSpeed_def
      dragWaypoint_def dragStart_def dragHeading_def dragStartHeading_def dragArcControl_def
      setArcSamples_def setSimSpeed_def
      deleteSelectedPoint_def Let_def split: option.splits)

lemma handle_history_le: "length (history s) \<le> 20 \<Longrightarrow> length (history (handle e s)) \<le> 20"
  using saves_history [of e s] not_saves_history [of e s]
  by (cases "saves e s") (auto simp: length_history_saveState)

lemma reachable_history_le: "reachable s \<Longrightarrow> length (history s) \<le> 20"
  by (induction rule: reachable.induct) (simp_all add: handle_history_le initial_state_def)

lemma snapshots_history:
  "length (history s) \<le> 20 \<Longrightarrow> Undo \<notin> set es \<Longrightarrow>
   history (fold handle es s) =
     drop (length (history s) + length (snapshot_states es s) - 20)
       (history s @ map snapshot.truncate (snapshot_states es s))"
proof (induction es arbitrary: s)
  case Nil
  then show ?case by simp
next
  case (Cons e es)
  have nu: "e \<noteq> Undo" and rest: "Undo \<notin> set es" using Cons.prems(2) by auto
  have le: "length (history (handle e s)) \<le> 20" using handle_history_le [OF Cons.prems(1)] .
  note ih = Cons.IH [OF le rest]
  show ?case
  proof (cases "saves e s")
    case sv: True
    have h: "history (handle e s) = history (saveState s)" using saves_history [OF sv] .
    show ?thesis
    proof (cases "length (history s) = 20")
      case True
      then obtain x xs where x: "history s = x # xs" by (cases "history s") auto
      have h': "history (handle e s) = xs @ [snapshot.truncate s]"
        using True x by (simp add: h history_saveState)
      show ?thesis using ih True x sv by (simp add: h')
    next
      case False
      then have lt: "length (history s) < 20" using Cons.prems(1) by simp
      have h': "history (handle e s) = history s @ [snapshot.truncate s]"
        using lt by (simp add: h history_saveState)
      show ?thesis using ih lt sv by (simp add: h')
    qed
  next
    case False
    have h: "history (handle e s) = history s" using not_saves_history [OF False] nu by simp
    show ?thesis using ih False by (simp add: h)
  qed
qed

lemma history_drag: "history (dragWaypoint i p s) = history s"
  using not_saves_history [of "DragWaypoint i p" s] by simp

lemma history_drags: "history (fold handle (map (DragWaypoint i) ps) s) = history s"
  by (induction ps arbitrary: s) (simp_all add: history_drag)

lemma waypoints_drag:
  assumes "waypoints s = [w]" and "segmentType w = Some Drive"
  shows "waypoints (dragWaypoint 0 p s) = [w\<lparr>x_m := x_m p, y_m := y_m p\<rparr>]"
  using assms by (simp add: dragWaypoint_def Let_def draw_def)

lemma waypoints_drags:
  assumes "waypoints s = [w]" and "segmentType w = Some Drive" and "ps \<noteq> []"
  shows "map pt (waypoints (fold handle (map (DragWaypoint 0) ps) s)) = [last ps]"
  using assms
proof (induction ps arbitrary: s w)
  case Nil
  then show ?case by simp
next
  case (Cons p ps)
  have w: "waypoints (dragWaypoint 0 p s) = [w\<lparr>x_m := x_m p, y_m := y_m p\<rparr>]"
    using waypoints_drag [OF Cons.prems(1,2)] .
  show ?case
  proof (cases "ps = []")
    case True
    then show ?thesis using w by (simp add: pt_def)
  next
    case False
    then show ?thesis
      using Cons.IH [OF w _ False] Cons.prems(2) by simp
  qed
qed

lemma one_click_fields:
  "waypoints one_click =
     [\<lparr>x_m = 1, y_m = 0, h_rad = 0, segmentType = Some Drive, arcSpeed = Some (8 / 10),
       arcControlPoint = None, isAction = False, actionId = None\<rparr>]"
  "length (history one_click) = 1"
  by (simp_all add: one_click_def addWaypoint_def saveState_def Let_def initial_state_def draw_def)

lemma snapshot_states_clear: "length (snapshot_states (replicate n ClearPath) s) = n"
  by (induction n arbitrary: s) simp_all

text \<open>
  C7, as the code has it.  In every state of a session the history holds at most 20
  snapshots.  The events that take a snapshot are those whose handler calls \<open>saveState\<close>:
  a click that adds a waypoint or an action, a change of segment type or arc speed, a
  deletion, a new start, clearing the path, decoding; a move by dragging is not among
  them.  After any further events without an undo, the history is the old history
  followed by the snapshots that these events took, cut down from the front to the 20
  most recent entries; once more than 20 of the events took a snapshot it holds exactly
  20 entries, the snapshots taken by the last 20 of them.
\<close>

theorem history_bounded_fifo:
  assumes "reachable s"
  shows "length (history s) \<le> 20 \<and>
     (\<forall>es. Undo \<notin> set es \<longrightarrow>
        history (fold handle es s) =
          drop (length (history s) + length (snapshot_states es s) - 20)
            (history s @ map snapshot.truncate (snapshot_states es s))) \<and>
     (\<forall>es. Undo \<notin> set es \<and> length (snapshot_states es s) > 20 \<longrightarrow>
        length (history (fold handle es s)) = 20 \<and>
        history (fold handle es s) =
          map snapshot.truncate (drop (length (snapshot_states es s) - 20) (snapshot_states es s)))"
proof -
  have le: "length (history s) \<le> 20" using reachable_history_le [OF assms] .
  have "length (history (fold handle es s)) = 20 \<and>
        history (fold handle es s) =
          map snapshot.truncate (drop (length (snapshot_states es s) - 20) (snapshot_states es s))"
    if a: "Undo \<notin> set es" and l: "length (snapshot_states es s) > 20" for es
  proof -
    have e: "history (fold handle es s) =
       drop (length (history s) + length (snapshot_states es s) - 20)
         (history s @ map snapshot.truncate (snapshot_states es s))"
      using snapshots_history [OF le a] .
    have d: "length (history s) + length (snapshot_states es s) - 20
        = length (history s) + (length (snapshot_states es s) - 20)"
      using l by simp
    have e2: "history (fold handle es s) =
        map snapshot.truncate (drop (length (snapshot_states es s) - 20) (snapshot_states es s))"
      unfolding e d by (simp add: drop_map)
    show ?thesis using e2 l by simp
  qed
  then show ?thesis using le snapshots_history [OF le] by blast
qed

theorem history_bounded_fifo_witness:
  "reachable three_clicks
   \<and> Undo \<notin> set (DragWaypoint 0 \<lparr>x_m = 5, y_m = 5\<rparr> # replicate 21 ClearPath)
   \<and> length (snapshot_states (DragWaypoint 0 \<lparr>x_m = 5, y_m = 5\<rparr> # replicate 21 ClearPath) three_clicks) = 21
   \<and> length (history three_clicks) = 3
   \<and> length (history (fold handle (DragWaypoint 0 \<lparr>x_m = 5, y_m = 5\<rparr> # replicate 21 ClearPath) three_clicks)) = 20"
proof -
  let ?es = "DragWaypoint 0 \<lparr>x_m = 5, y_m = 5\<rparr> # replicate 21 ClearPath"
  have r: "reachable three_clicks"
    unfolding three_clicks_def
    using reachable_handle [of _ "AddWaypoint _"] reachable_initial by simp
  have h: "length (history three_clicks) = 3"
    by (simp add: three_clicks_def addWaypoint_def Let_def length_history_saveState initial_state_def)
  have u: "Undo \<notin> set ?es" by simp
  have l: "length (snapshot_states ?es three_clicks) = 21"
    by (simp add: snapshot_states_clear)
  have g: "length (snapshot_states ?es three_clicks) > 20" using l by simp
  have "length (history (fold handle ?es three_clicks)) = 20"
    using history_bounded_fifo [OF r] u g by blast
  then show ?thesis using r h u l by blast
qed

text \<open>
  C7 as the specification states it fails, because it counts moves among the structural
  mutations: a click that adds a waypoint followed by 21 moves of that waypoint by
  dragging are 22 mutations of the path, the waypoint ends at \<open>(21, 1)\<close>, and the history
  holds one snapshot, the one taken by the click.
\<close>

theorem drags_take_no_snapshot_counterexample:
  "length (AddWaypoint \<lparr>x_m = 1, y_m = 0\<rparr> # drags) = 22
   \<and> fold handle (AddWaypoint \<lparr>x_m = 1, y_m = 0\<rparr> # drags) initial_state = fold handle drags one_click
   \<and> map pt (waypoints one_click) = [\<lparr>x_m = 1, y_m = 0\<rparr>]
   \<and> map pt (waypoints (fold handle drags one_click)) = [\<lparr>x_m = 21, y_m = 1\<rparr>]
   \<and> length (history (fold handle drags one_click)) = 1"
proof -
  have t: "drag_targets \<noteq> []" "last drag_targets = \<lparr>x_m = 21, y_m = 1\<rparr>" "length drag_targets = 21"
    by (simp_all add: drag_targets_def last_map)
  have w: "map pt (waypoints (fold handle drags one_click)) = [last drag_targets]"
    unfolding drags_def by (rule waypoints_drags [OF one_click_fields(1) _ t(1)]) simp
  show ?thesis
    using w t by (simp add: drags_def history_drags one_click_fields pt_def) (simp add: one_click_def)
qed

lemma reachable_three_clicks: "reachable three_clicks"
  unfolding three_clicks_def
  using reachable_handle [of _ "AddWaypoint _"] reachable_initial by simp

lemma hello_blank: "trim ''hello'' \<noteq> []"
  by (simp add: trim_def is_space_def)

lemma hello_unrecognized: "\<not> isFieldOriented ''hello''" "\<not> isRobotOriented ''hello''"
  by (simp_all add: isFieldOriented_def isRobotOriented_def startsWith_def)

lemma decode_unrecognized:
  "trim code \<noteq> [] \<Longrightarrow> \<not> isFieldOriented code \<Longrightarrow> \<not> isRobotOriented code \<Longrightarrow>
   decodeAndVisualize code s = (UnrecognizedFormat, (saveState s)\<lparr>waypoints := [], markers := []\<rparr>)"
  by (simp add: decodeAndVisualize_def Let_def)

lemma undo_after_save:
  assumes "history t = history (saveState s)" and "currentMode t = currentMode s" and "drawn s"
  shows "snapshot.truncate (undo t) = snapshot.truncate s"
proof -
  let ?u = "t\<lparr>history := butlast (history t), waypoints := waypoints s, markers := markers s,
              start := start s, selectedSegmentIdx := selectedSegmentIdx s\<rparr>"
  have u: "undo t = draw ?u"
    using assms(1) by (simp add: undo_def Let_def snapshot.truncate_def)
  have "drawn ?u" using assms(2,3) by (simp add: drawn_def)
  then have "draw ?u = ?u" by (rule draw_id)
  then show ?thesis unfolding u by (simp add: snapshot.truncate_def)
qed

text \<open>
  C10.  In every state of a session, a decode attempt on a text that is not blank (one
  that reaches the clearing of the path, whatever its outcome) leaves the history as one
  call of \<open>saveState\<close> makes it: its newest entry is the snapshot of the waypoints, markers,
  start and selection before the attempt.  \<open>undo\<close> after the attempt gives these four
  their values from before the attempt.
\<close>

theorem decode_snapshot_then_undo:
  assumes "reachable s" and "trim code \<noteq> []"
  shows "history (snd (decodeAndVisualize code s)) = history (saveState s)
     \<and> last (history (snd (decodeAndVisualize code s))) = snapshot.truncate s
     \<and> length (history (snd (decodeAndVisualize code s))) = min 20 (length (history s) + 1)
     \<and> snapshot.truncate (undo (snd (decodeAndVisualize code s))) = snapshot.truncate s"
proof -
  have h: "history (snd (decodeAndVisualize code s)) = history (saveState s)"
    using history_decode [OF assms(2)] .
  have l: "length (history (saveState s)) = min 20 (length (history s) + 1)"
    using reachable_history_le [OF assms(1)] by (simp add: length_history_saveState)
  have u: "snapshot.truncate (undo (snd (decodeAndVisualize code s))) = snapshot.truncate s"
    using undo_after_save [OF h _ reachable_drawn [OF assms(1)]] by simp
  show ?thesis using h l u by simp
qed

theorem decode_snapshot_then_undo_witness:
  "reachable three_clicks \<and> trim ''hello'' \<noteq> []
   \<and> waypoints (snd (decodeAndVisualize ''hello'' three_clicks)) = []
   \<and> length (waypoints three_clicks) = 3
   \<and> snapshot.truncate (undo (snd (decodeAndVisualize ''hello'' three_clicks)))
       = snapshot.truncate three_clicks"
proof -
  have w: "waypoints (snd (decodeAndVisualize ''hello'' three_clicks)) = []"
    by (simp add: decode_unrecognized hello_blank hello_unrecognized)
  have n: "length (waypoints three_clicks) = 3"
    by (simp add: three_clicks_def addWaypoint_def Let_def initial_state_def)
  show ?thesis
    using decode_snapshot_then_undo [OF reachable_three_clicks hello_blank] reachable_three_clicks
      hello_blank w n by blast
qed

text \<open>
  C1, as the code has it.  A text that matches neither grammar is ignored when it is
  blank, and the state stays as it was.  Otherwise the outcome is the unrecognized-format
  message, and by then the path has been cleared: waypoints and markers are empty, the
  start is as before, and the snapshot of the state before the attempt is the newest
  history entry.
\<close>

theorem unrecognized_format_clears_path:
  assumes "\<not> isFieldOriented code" and "\<not> isRobotOriented code"
  shows "(trim code = [] \<longrightarrow> decodeAndVisualize code s = (Ignored, s)) \<and>
     (trim code \<noteq> [] \<longrightarrow>
        fst (decodeAndVisualize code s) = UnrecognizedFormat \<and>
        waypoints (snd (decodeAndVisualize code s)) = [] \<and>
        markers (snd (decodeAndVisualize code s)) = [] \<and>
        start (snd (decodeAndVisualize code s)) = start s \<and>
        last (history (snd (decodeAndVisualize code s))) = snapshot.truncate s)"
  using assms decode_unrecognized [of code s] by (simp add: decodeAndVisualize_def)

theorem unrecognized_format_clears_path_witness:
  "\<not> isFieldOriented ''hello'' \<and> \<not> isRobotOriented ''hello'' \<and> trim ''hello'' \<noteq> []
   \<and> fst (decodeAndVisualize ''hello'' three_clicks) = UnrecognizedFormat
   \<and> waypoints (snd (decodeAndVisualize ''hello'' three_clicks)) = []
   \<and> markers (snd (decodeAndVisualize ''hello'' three_clicks)) = []
   \<and> start (snd (decodeAndVisualize ''hello'' three_clicks)) = start three_clicks
   \<and> last (history (snd (decodeAndVisualize ''hello'' three_clicks))) = snapshot.truncate three_clicks"
  using unrecognized_format_clears_path [OF hello_unrecognized, of three_clicks] hello_unrecognized
    hello_blank by blast

text \<open>
  C1 as the specification states it fails for the text \<open>hello\<close> on a path of three
  waypoints: the outcome is the unrecognized-format message and the waypoints are gone.
\<close>

theorem unrecognized_format_changes_state_counterexample:
  "\<not> isFieldOriented ''hello'' \<and> \<not> isRobotOriented ''hello''
   \<and> fst (decodeAndVisualize ''hello'' three_clicks) = UnrecognizedFormat
   \<and> length (waypoints three_clicks) = 3
   \<and> waypoints (snd (decodeAndVisualize ''hello'' three_clicks)) = []
   \<and> snd (decodeAndVisualize ''hello'' three_clicks) \<noteq> three_clicks"
proof -
  have n: "length (waypoints three_clicks) = 3"
    by (simp add: three_clicks_def addWaypoint_def Let_def initial_state_def)
  have w: "waypoints (snd (decodeAndVisualize ''hello'' three_clicks)) = []"
    by (simp add: decode_unrecognized hello_blank hello_unrecognized)
  have "snd (decodeAndVisualize ''hello'' three_clicks) \<noteq> three_clicks"
    using n w by auto
  then show ?thesis using n w hello_unrecognized
    by (simp add: decode_unrecognized hello_blank)
qed

text \<open>
  C9 fails in the decoder.  A decode attempt on a text that is not blank and matches
  neither grammar empties the waypoint list and leaves the selection as it was, so a
  selection that pointed at a waypoint is out of range afterwards.
\<close>

theorem decode_keeps_selection_of_cleared_path:
  assumes "trim code \<noteq> []" and "\<not> isFieldOriented code" and "\<not> isRobotOriented code"
  shows "waypoints (snd (decodeAndVisualize code s)) = []
     \<and> selectedSegmentIdx (snd (decodeAndVisualize code s)) = selectedSegmentIdx s"
  using assms by (simp add: decode_unrecognized)

text \<open>
  The failing input: after three clicks the third waypoint is selected; decoding the text
  \<open>hello\<close> leaves no waypoint and the selection at index \<open>2\<close>.
\<close>

theorem decode_keeps_selection_of_cleared_path_witness:
  "trim ''hello'' \<noteq> [] \<and> \<not> isFieldOriented ''hello'' \<and> \<not> isRobotOriented ''hello''
   \<and> reachable three_clicks
   \<and> selectedSegmentIdx three_clicks = Some 2 \<and> length (waypoints three_clicks) = 3
   \<and> waypoints (snd (decodeAndVisualize ''hello'' three_clicks)) = []
   \<and> selectedSegmentIdx (snd (decodeAndVisualize ''hello'' three_clicks)) = Some 2"
proof -
  have a: "selectedSegmentIdx three_clicks = Some 2" "length (waypoints three_clicks) = 3"
    by (simp_all add: three_clicks_def addWaypoint_def Let_def initial_state_def)
  show ?thesis
    using decode_keeps_selection_of_cleared_path [OF hello_blank hello_unrecognized, of three_clicks]
      hello_blank hello_unrecognized reachable_three_clicks a by simp
qed

section \<open>The robot-oriented program\<close>

lemma bezierPoint_0 [simp]: "bezierPoint 0 p0 p1 p2 = p0"
  by (simp add: bezierPoint_def)




lemma length_upto_int: "length [1..n - 1] = nat (n - 1)"
  by simp







text \<open>
  C3, as the code has it.  The first command of the robot-oriented program is always
  \<open>turnPID(0)\<close>, whatever the start pose is.
\<close>

theorem first_command_turns_to_zero:
  "first_command (generateRobotOrientedCode s) = Some (TurnPID 0 '' // face start heading'')"
  by (simp add: first_command_def generateRobotOrientedCode_def is_command_def)

theorem first_command_turns_to_zero_witness:
  "first_command (generateRobotOrientedCode three_clicks) = Some (TurnPID 0 '' // face start heading'')"
  by (rule first_command_turns_to_zero)

text \<open>
  C3 as the specification states it fails for a start heading of a quarter turn: the
  program convention gives \<open>-90\<close> degrees, and the first command is still \<open>turnPID(0)\<close>.
\<close>

theorem first_command_ignores_start_heading_counterexample:
  "round (radToDeg (- h_rad (start quarter_turn_start))) = - 90
   \<and> first_command (generateRobotOrientedCode quarter_turn_start)
       = Some (TurnPID 0 '' // face start heading'')
   \<and> first_command (generateRobotOrientedCode quarter_turn_start)
       \<noteq> Some (TurnPID (round (radToDeg (- h_rad (start quarter_turn_start)))) '' // face start heading'')"
proof -
  have h: "radToDeg (- h_rad (start quarter_turn_start)) = - 90"
    by (simp add: quarter_turn_start_def dragStartHeading_def initial_state_def radToDeg_def)
  have f: "first_command (generateRobotOrientedCode quarter_turn_start)
       = Some (TurnPID 0 '' // face start heading'')"
    by (simp add: first_command_def generateRobotOrientedCode_def is_command_def)
  show ?thesis unfolding h f by simp
qed

end
